theory Spec2Isabelle
  imports Main "HOL-Library.Word"
begin

unbundle bit_operations_syntax

section \<open>The Vulkan device of nvrhi: capability negotiation, heaps, tiling, queues\<close>

text \<open>
  A shallow embedding of \<^verbatim>\<open>src/vulkan/vulkan-device.cpp\<close>. Native handles are natural
  numbers with 0 for the null handle, 32-bit and 64-bit unsigned integers are words, the
  message callback and the \<^verbatim>\<open>utils\<close> reporting helpers append to a list of diagnostics,
  and whatever C++ leaves undefined (dereferencing an empty \<^verbatim>\<open>unique_ptr\<close>, reading
  past an array, dividing by zero) or throws is a value of type \<open>Fault\<close>.
\<close>

subsection \<open>Build configuration, diagnostics, faults\<close>

text \<open>The two preprocessor switches the file tests with \<^verbatim>\<open>#ifdef\<close> / \<^verbatim>\<open>#if\<close>.\<close>

record BuildConfig =
  NVRHI_WITH_RTXMU :: bool
  NVRHI_WITH_AFTERMATH :: bool

datatype MessageSeverity = Info | Warning | Error

text \<open>
  Modelled from the spec: \<^verbatim>\<open>utils::NotSupported\<close> and \<^verbatim>\<open>utils::InvalidEnum\<close> are defined
  outside this file; the spec says that they report an UnsupportedOperation and an
  InvalidEnum diagnostic. \<open>Message\<close> is a call of the device's message callback
  (\<^verbatim>\<open>VulkanContext::error\<close>, \<^verbatim>\<open>warning\<close>, \<^verbatim>\<open>info\<close>).
\<close>

datatype Diagnostic =
    Message MessageSeverity string
  | UnsupportedOperation
  | InvalidEnum

datatype VkException = DeviceLostError | OutOfHostMemoryError | OutOfDeviceMemoryError

datatype Fault =
    NullPointerDereference
  | IndexOutOfBounds
  | DivisionByZero
  | Uncaught VkException

definition error :: "string \<Rightarrow> Diagnostic" where
  "error message = Message Error message"

definition warning :: "string \<Rightarrow> Diagnostic" where
  "warning message = Message Warning message"

definition info :: "string \<Rightarrow> Diagnostic" where
  "info message = Message Info message"

subsection \<open>The capability set\<close>

record Extensions =
  EXT_conservative_rasterization :: bool
  EXT_debug_marker :: bool
  EXT_debug_report :: bool
  EXT_debug_utils :: bool
  EXT_opacity_micromap :: bool
  KHR_acceleration_structure :: bool
  buffer_device_address :: bool
  KHR_fragment_shading_rate :: bool
  KHR_maintenance1 :: bool
  KHR_ray_query :: bool
  KHR_ray_tracing_pipeline :: bool
  KHR_synchronization2 :: bool
  NV_mesh_shader :: bool
  NV_ray_tracing_invocation_reorder :: bool
  NV_cluster_acceleration_structure :: bool
  EXT_mutable_descriptor_type :: bool
  NV_cooperative_vector :: bool
  NV_device_diagnostic_checkpoints :: bool
  NV_device_diagnostics_config :: bool

text \<open>Every flag of a freshly constructed context is false.\<close>

definition noExtensions :: Extensions where
  "noExtensions = \<lparr>
     EXT_conservative_rasterization = False, EXT_debug_marker = False,
     EXT_debug_report = False, EXT_debug_utils = False, EXT_opacity_micromap = False,
     KHR_acceleration_structure = False, buffer_device_address = False,
     KHR_fragment_shading_rate = False, KHR_maintenance1 = False, KHR_ray_query = False,
     KHR_ray_tracing_pipeline = False, KHR_synchronization2 = False, NV_mesh_shader = False,
     NV_ray_tracing_invocation_reorder = False, NV_cluster_acceleration_structure = False,
     EXT_mutable_descriptor_type = False, NV_cooperative_vector = False,
     NV_device_diagnostic_checkpoints = False, NV_device_diagnostics_config = False \<rparr>"

text \<open>
  \<^verbatim>\<open>extensionStringMap\<close>: each extension name with the flag its \<^verbatim>\<open>bool*\<close> points at,
  the pointer being the function that stores \<^verbatim>\<open>true\<close> through it. The names are the
  values of the \<^verbatim>\<open>VK_..._EXTENSION_NAME\<close> macros of the Vulkan headers.
\<close>

definition extensionStringMap :: "BuildConfig \<Rightarrow> (string \<times> (Extensions \<Rightarrow> Extensions)) list" where
  "extensionStringMap cfg =
     [ (''VK_EXT_conservative_rasterization'', \<lambda>e. e\<lparr>EXT_conservative_rasterization := True\<rparr>),
       (''VK_EXT_debug_marker'', \<lambda>e. e\<lparr>EXT_debug_marker := True\<rparr>),
       (''VK_EXT_debug_report'', \<lambda>e. e\<lparr>EXT_debug_report := True\<rparr>),
       (''VK_EXT_debug_utils'', \<lambda>e. e\<lparr>EXT_debug_utils := True\<rparr>),
       (''VK_EXT_opacity_micromap'', \<lambda>e. e\<lparr>EXT_opacity_micromap := True\<rparr>),
       (''VK_KHR_acceleration_structure'', \<lambda>e. e\<lparr>KHR_acceleration_structure := True\<rparr>),
       (''VK_KHR_buffer_device_address'', \<lambda>e. e\<lparr>buffer_device_address := True\<rparr>),
       (''VK_KHR_fragment_shading_rate'', \<lambda>e. e\<lparr>KHR_fragment_shading_rate := True\<rparr>),
       (''VK_KHR_maintenance1'', \<lambda>e. e\<lparr>KHR_maintenance1 := True\<rparr>),
       (''VK_KHR_ray_query'', \<lambda>e. e\<lparr>KHR_ray_query := True\<rparr>),
       (''VK_KHR_ray_tracing_pipeline'', \<lambda>e. e\<lparr>KHR_ray_tracing_pipeline := True\<rparr>),
       (''VK_KHR_synchronization2'', \<lambda>e. e\<lparr>KHR_synchronization2 := True\<rparr>),
       (''VK_NV_mesh_shader'', \<lambda>e. e\<lparr>NV_mesh_shader := True\<rparr>),
       (''VK_NV_ray_tracing_invocation_reorder'', \<lambda>e. e\<lparr>NV_ray_tracing_invocation_reorder := True\<rparr>),
       (''VK_NV_cluster_acceleration_structure'', \<lambda>e. e\<lparr>NV_cluster_acceleration_structure := True\<rparr>),
       (''VK_EXT_mutable_descriptor_type'', \<lambda>e. e\<lparr>EXT_mutable_descriptor_type := True\<rparr>),
       (''VK_NV_cooperative_vector'', \<lambda>e. e\<lparr>NV_cooperative_vector := True\<rparr>) ]
     @ (if NVRHI_WITH_AFTERMATH cfg
        then [ (''VK_NV_device_diagnostic_checkpoints'', \<lambda>e. e\<lparr>NV_device_diagnostic_checkpoints := True\<rparr>),
               (''VK_NV_device_diagnostics_config'', \<lambda>e. e\<lparr>NV_device_diagnostics_config := True\<rparr>) ]
        else [])"

text \<open>One iteration of either parsing loop: a name outside the map changes nothing.\<close>

definition enableExtension :: "BuildConfig \<Rightarrow> string \<Rightarrow> Extensions \<Rightarrow> Extensions" where
  "enableExtension cfg name e =
     (case map_of (extensionStringMap cfg) name of
        None \<Rightarrow> e
      | Some setFlag \<Rightarrow> setFlag e)"

definition parseExtensions :: "BuildConfig \<Rightarrow> string list \<Rightarrow> Extensions \<Rightarrow> Extensions" where
  "parseExtensions cfg names e = fold (enableExtension cfg) names e"

subsection \<open>Context, queues and the device\<close>

datatype RayTracingInvocationReorderModeNV = eNone | eReorder

record Extent2D =
  extentWidth :: "32 word"
  extentHeight :: "32 word"

text \<open>
  What the physical device answers to \<^verbatim>\<open>getProperties2\<close> and \<^verbatim>\<open>getFeatures2\<close> for the
  blocks this file reads, and what the two administrative creation calls of the
  constructor return (a \<^verbatim>\<open>vk::Result\<close> as its integer code, 0 being \<^verbatim>\<open>eSuccess\<close>).
\<close>

type_synonym Result = int

definition eSuccess :: Result where
  "eSuccess = 0"

record PhysicalDevice =
  reportedSubgroupSize :: "32 word"
  reportedShadingRateTexelSize :: Extent2D
  reportedReorderingHint :: RayTracingInvocationReorderModeNV
  reportedAttachmentFragmentShadingRate :: bool
  reportedCooperativeVector :: bool
  reportedCooperativeVectorTraining :: bool
  createPipelineCacheResult :: Result
  createDescriptorSetLayoutResult :: Result

record VulkanContext =
  extensions :: Extensions
  subgroupSize :: "32 word"
  minFragmentShadingRateAttachmentTexelSize :: Extent2D
  rayTracingInvocationReorderReorderingHint :: RayTracingInvocationReorderModeNV
  attachmentFragmentShadingRate :: bool
  cooperativeVector :: bool
  cooperativeVectorTraining :: bool

datatype CommandQueue = Graphics | Compute | Copy | Count

text \<open>\<^verbatim>\<open>uint32_t(queue)\<close>: the position of the enumerator.\<close>

fun queueIndex :: "CommandQueue \<Rightarrow> nat" where
  "queueIndex Graphics = 0"
| "queueIndex Compute = 1"
| "queueIndex Copy = 2"
| "queueIndex Count = 3"

text \<open>
  Modelled from the spec: the class \<^verbatim>\<open>Queue\<close> (its constructor, \<^verbatim>\<open>getVkQueue\<close> and
  \<^verbatim>\<open>submit\<close>) is defined outside this file. The spec gives a queue its kind, its native
  handle and a monotonically increasing submission counter; \<^verbatim>\<open>submit\<close> returns a
  per-queue monotonically increasing identifier. \<^verbatim>\<open>executeCommandLists\<close> holds the
  identifier in a \<^verbatim>\<open>uint64_t\<close>, so the counter is a 64-bit word that \<^verbatim>\<open>submit\<close>
  increments and returns; it starts at 0.
\<close>

record Queue =
  queueID :: CommandQueue
  vkQueue :: nat
  queueFamilyIndex :: int
  lastSubmittedID :: "64 word"

definition newQueue :: "CommandQueue \<Rightarrow> nat \<Rightarrow> int \<Rightarrow> Queue" where
  "newQueue kind handle familyIndex =
     \<lparr> queueID = kind, vkQueue = handle, queueFamilyIndex = familyIndex, lastSubmittedID = 0 \<rparr>"

definition getVkQueue :: "Queue \<Rightarrow> nat" where
  "getVkQueue q = vkQueue q"


record DeviceDesc =
  graphicsQueue :: nat
  graphicsQueueIndex :: int
  computeQueue :: nat
  computeQueueIndex :: int
  transferQueue :: nat
  transferQueueIndex :: int
  instanceExtensions :: "string list"
  deviceExtensions :: "string list"
  bufferDeviceAddressSupported :: bool

text \<open>
  \<^verbatim>\<open>m_Queues\<close> is an array of \<^verbatim>\<open>uint32_t(CommandQueue::Count)\<close> owning pointers, here the
  slots 0, 1 and 2 of a function; \<open>None\<close> is the empty pointer.
\<close>

record Device =
  m_Context :: VulkanContext
  m_Queues :: "nat \<Rightarrow> Queue option"

definition omm_without_sync2_message :: string where
  "omm_without_sync2_message =
     ''EXT_opacity_micromap is used without KHR_synchronization2 which is nessesary for OMM Array state transitions. Feature::RayTracingOpacityMicromap will be disabled.''"

text \<open>
  The constructor \<^verbatim>\<open>Device::Device\<close>. A property block chained into the query holds
  what the physical device reports; a block left out keeps its zero default. The result
  is the device and the diagnostics sent to the message callback, in order.
\<close>

definition Device_ctor :: "BuildConfig \<Rightarrow> PhysicalDevice \<Rightarrow> DeviceDesc \<Rightarrow> Device \<times> Diagnostic list" where
  "Device_ctor cfg pd desc =
     (let q0 = (\<lambda>i. None);
          q1 = (if graphicsQueue desc \<noteq> 0
                then q0(queueIndex Graphics :=
                          Some (newQueue Graphics (graphicsQueue desc) (graphicsQueueIndex desc)))
                else q0);
          q2 = (if computeQueue desc \<noteq> 0
                then q1(queueIndex Compute :=
                          Some (newQueue Compute (computeQueue desc) (computeQueueIndex desc)))
                else q1);
          queues = (if transferQueue desc \<noteq> 0
                then q2(queueIndex Copy :=
                          Some (newQueue Copy (transferQueue desc) (transferQueueIndex desc)))
                else q2);
          e1 = parseExtensions cfg (instanceExtensions desc) noExtensions;
          e2 = parseExtensions cfg (deviceExtensions desc) e1;
          ext = (if bufferDeviceAddressSupported desc then e2\<lparr>buffer_device_address := True\<rparr> else e2);
          ctx = \<lparr> extensions = ext,
                  subgroupSize = reportedSubgroupSize pd,
                  minFragmentShadingRateAttachmentTexelSize =
                    (if KHR_fragment_shading_rate ext then reportedShadingRateTexelSize pd
                     else \<lparr> extentWidth = 0, extentHeight = 0 \<rparr>),
                  rayTracingInvocationReorderReorderingHint =
                    (if NV_ray_tracing_invocation_reorder ext then reportedReorderingHint pd else eNone),
                  attachmentFragmentShadingRate =
                    (KHR_fragment_shading_rate ext \<and> reportedAttachmentFragmentShadingRate pd),
                  cooperativeVector = (NV_cooperative_vector ext \<and> reportedCooperativeVector pd),
                  cooperativeVectorTraining =
                    (NV_cooperative_vector ext \<and> reportedCooperativeVectorTraining pd) \<rparr>;
          diags =
              (if EXT_opacity_micromap ext \<and> \<not> KHR_synchronization2 ext
               then [warning omm_without_sync2_message] else [])
            @ (if NVRHI_WITH_RTXMU cfg \<and> EXT_opacity_micromap ext
               then [warning ''Opacity micro-maps are not currently supported by RTXMU.''] else [])
            @ (if createPipelineCacheResult pd \<noteq> eSuccess
               then [error ''Failed to create the pipeline cache''] else [])
            @ (if createDescriptorSetLayoutResult pd \<noteq> eSuccess
               then [error ''Failed to create an empty descriptor set layout''] else [])
      in (\<lparr> m_Context = ctx, m_Queues = queues \<rparr>, diags))"

text \<open>\<^verbatim>\<open>m_Queues[i]\<close> at a computed index: past the last slot it is a fault.\<close>

definition queueSlot :: "Device \<Rightarrow> nat \<Rightarrow> Fault + Queue option" where
  "queueSlot d i = (if i < queueIndex Count then Inr (m_Queues d i) else Inl IndexOutOfBounds)"

subsection \<open>waitForIdle\<close>

text \<open>
  The native \<^verbatim>\<open>waitIdle\<close> either returns or throws; \<open>None\<close> is the normal return. The
  \<^verbatim>\<open>catch\<close> clause names \<^verbatim>\<open>vk::DeviceLostError\<close> only, so any other exception leaves
  the function uncaught.
\<close>

definition waitForIdle :: "VkException option \<Rightarrow> Fault + bool" where
  "waitForIdle waitIdle =
     (case waitIdle of
        None \<Rightarrow> Inr True
      | Some DeviceLostError \<Rightarrow> Inr False
      | Some e \<Rightarrow> Inl (Uncaught e))"

subsection \<open>queryFeatureSupport\<close>

text \<open>
  The enumerators the \<^verbatim>\<open>switch\<close> names; \<open>OtherFeature\<close> stands for every enumerator it
  leaves to \<^verbatim>\<open>default\<close>.
\<close>

datatype Feature =
    DeferredCommandLists
  | RayTracingAccelStruct
  | RayTracingPipeline
  | RayTracingOpacityMicromap
  | RayQuery
  | ShaderExecutionReordering
  | RayTracingClusters
  | ShaderSpecializations
  | Meshlets
  | VariableRateShading
  | ConservativeRasterization
  | VirtualResources
  | ComputeQueue
  | CopyQueue
  | ConstantBufferRanges
  | WaveLaneCountMinMax
  | HeapDirectlyIndexed
  | CooperativeVectorInferencing
  | CooperativeVectorTraining
  | OtherFeature nat

text \<open>
  The memory \<^verbatim>\<open>pInfo\<close> points at is the list of its 32-bit words; \<open>None\<close> is the null
  pointer.
\<close>

type_synonym InfoMemory = "32 word list"

text \<open>
  Modelled from the spec: the two payload structs are declared in the public header,
  which is not among the sources. The spec gives the first a tile size and the second a
  minimum and a maximum lane count; the values stored into them are \<^verbatim>\<open>uint32_t\<close>, so
  the first is one word (the tile size) and the second two (minimum, then maximum).
\<close>

definition sizeof_VariableRateShadingFeatureInfo :: nat where
  "sizeof_VariableRateShadingFeatureInfo = 4"

definition sizeof_WaveLaneCountMinMaxFeatureInfo :: nat where
  "sizeof_WaveLaneCountMinMaxFeatureInfo = 8"

definition set_shadingRateImageTileSize :: "32 word \<Rightarrow> InfoMemory \<Rightarrow> InfoMemory" where
  "set_shadingRateImageTileSize v mem = mem[0 := v]"

definition set_minWaveLaneCount :: "32 word \<Rightarrow> InfoMemory \<Rightarrow> InfoMemory" where
  "set_minWaveLaneCount v mem = mem[0 := v]"

definition set_maxWaveLaneCount :: "32 word \<Rightarrow> InfoMemory \<Rightarrow> InfoMemory" where
  "set_maxWaveLaneCount v mem = mem[1 := v]"

text \<open>What a call leaves behind: the returned boolean, the memory at \<^verbatim>\<open>pInfo\<close>, the diagnostics.\<close>

record FeatureAnswer =
  supported :: bool
  infoAfter :: "InfoMemory option"
  reported :: "Diagnostic list"

definition answer :: "bool \<Rightarrow> InfoMemory option \<Rightarrow> FeatureAnswer" where
  "answer b pInfo = \<lparr> supported = b, infoAfter = pInfo, reported = [] \<rparr>"

fun queryFeatureSupport ::
  "BuildConfig \<Rightarrow> Device \<Rightarrow> Feature \<Rightarrow> InfoMemory option \<Rightarrow> nat \<Rightarrow> FeatureAnswer" where
  "queryFeatureSupport cfg d DeferredCommandLists pInfo infoSize = answer True pInfo"
| "queryFeatureSupport cfg d RayTracingAccelStruct pInfo infoSize =
     answer (KHR_acceleration_structure (extensions (m_Context d))) pInfo"
| "queryFeatureSupport cfg d RayTracingPipeline pInfo infoSize =
     answer (KHR_ray_tracing_pipeline (extensions (m_Context d))) pInfo"
| "queryFeatureSupport cfg d RayTracingOpacityMicromap pInfo infoSize =
     (if NVRHI_WITH_RTXMU cfg
      then answer False pInfo
      else answer (EXT_opacity_micromap (extensions (m_Context d))
                   \<and> KHR_synchronization2 (extensions (m_Context d))) pInfo)"
| "queryFeatureSupport cfg d RayQuery pInfo infoSize =
     answer (KHR_ray_query (extensions (m_Context d))) pInfo"
| "queryFeatureSupport cfg d ShaderExecutionReordering pInfo infoSize =
     (if NV_ray_tracing_invocation_reorder (extensions (m_Context d))
      then answer (eReorder = rayTracingInvocationReorderReorderingHint (m_Context d)) pInfo
      else answer False pInfo)"
| "queryFeatureSupport cfg d RayTracingClusters pInfo infoSize =
     answer (NV_cluster_acceleration_structure (extensions (m_Context d))) pInfo"
| "queryFeatureSupport cfg d ShaderSpecializations pInfo infoSize = answer True pInfo"
| "queryFeatureSupport cfg d Meshlets pInfo infoSize =
     answer (NV_mesh_shader (extensions (m_Context d))) pInfo"
| "queryFeatureSupport cfg d VariableRateShading pInfo infoSize =
     (let tileExtent = minFragmentShadingRateAttachmentTexelSize (m_Context d);
          ret = (KHR_fragment_shading_rate (extensions (m_Context d))
                 \<and> attachmentFragmentShadingRate (m_Context d))
      in case pInfo of
           None \<Rightarrow> answer ret None
         | Some mem \<Rightarrow>
             if infoSize = sizeof_VariableRateShadingFeatureInfo
             then answer ret
                    (Some (set_shadingRateImageTileSize
                             (max (extentWidth tileExtent) (extentHeight tileExtent)) mem))
             else \<lparr> supported = ret, infoAfter = Some mem, reported = [UnsupportedOperation] \<rparr>)"
| "queryFeatureSupport cfg d ConservativeRasterization pInfo infoSize =
     answer (EXT_conservative_rasterization (extensions (m_Context d))) pInfo"
| "queryFeatureSupport cfg d VirtualResources pInfo infoSize = answer True pInfo"
| "queryFeatureSupport cfg d ComputeQueue pInfo infoSize =
     answer (m_Queues d (queueIndex Compute) \<noteq> None) pInfo"
| "queryFeatureSupport cfg d CopyQueue pInfo infoSize =
     answer (m_Queues d (queueIndex Copy) \<noteq> None) pInfo"
| "queryFeatureSupport cfg d ConstantBufferRanges pInfo infoSize = answer True pInfo"
| "queryFeatureSupport cfg d WaveLaneCountMinMax pInfo infoSize =
     (if subgroupSize (m_Context d) = 0
      then answer False pInfo
      else case pInfo of
             None \<Rightarrow> answer True None
           | Some mem \<Rightarrow>
               if infoSize = sizeof_WaveLaneCountMinMaxFeatureInfo
               then answer True
                      (Some (set_maxWaveLaneCount (subgroupSize (m_Context d))
                              (set_minWaveLaneCount (subgroupSize (m_Context d)) mem)))
               else \<lparr> supported = True, infoAfter = Some mem, reported = [UnsupportedOperation] \<rparr>)"
| "queryFeatureSupport cfg d HeapDirectlyIndexed pInfo infoSize =
     answer (EXT_mutable_descriptor_type (extensions (m_Context d))) pInfo"
| "queryFeatureSupport cfg d CooperativeVectorInferencing pInfo infoSize =
     answer (NV_cooperative_vector (extensions (m_Context d)) \<and> cooperativeVector (m_Context d)) pInfo"
| "queryFeatureSupport cfg d CooperativeVectorTraining pInfo infoSize =
     answer (NV_cooperative_vector (extensions (m_Context d))
             \<and> cooperativeVectorTraining (m_Context d)) pInfo"
| "queryFeatureSupport cfg d (OtherFeature n) pInfo infoSize = answer False pInfo"

subsection \<open>getNativeQueue and executeCommandLists\<close>

datatype ObjectType =
    VK_Device
  | VK_PhysicalDevice
  | VK_Instance
  | Nvrhi_VK_Device
  | VK_Queue
  | OtherObjectType nat

text \<open>
  The returned \<^verbatim>\<open>Object\<close> is the handle it wraps, 0 for \<^verbatim>\<open>nullptr\<close>. After the two
  guards the slot is dereferenced with \<^verbatim>\<open>->\<close> whatever it holds.
\<close>

definition getNativeQueue :: "Device \<Rightarrow> ObjectType \<Rightarrow> CommandQueue \<Rightarrow> Fault + nat" where
  "getNativeQueue d objectType queue =
     (if objectType \<noteq> VK_Queue then Inr 0
      else if queueIndex queue \<ge> queueIndex Count then Inr 0
      else case queueSlot d (queueIndex queue) of
             Inl f \<Rightarrow> Inl f
           | Inr None \<Rightarrow> Inl NullPointerDereference
           | Inr (Some q) \<Rightarrow> Inr (getVkQueue q))"



subsection \<open>queryFormatSupport\<close>

text \<open>
  \<open>OtherFormat\<close> stands for every enumerator of \<^verbatim>\<open>Format\<close> other than the two the function
  names.
\<close>

datatype Format = R16_UINT | R32_UINT | OtherFormat nat

text \<open>
  Modelled from the spec: the bit values of \<^verbatim>\<open>FormatSupport\<close> are declared in the public
  header, which is not among the sources. The spec calls the result a bitmask over the
  usage categories, so a mask is the set of its categories, \<^verbatim>\<open>None\<close> the empty set and
  \<^verbatim>\<open>|\<close> the union.
\<close>

datatype FormatSupport =
    Buffer | IndexBuffer | VertexBuffer | Texture | DepthStencil | RenderTarget | Blendable
  | ShaderLoad | ShaderSample | ShaderUavLoad | ShaderUavStore | ShaderAtomic

text \<open>The bits of \<^verbatim>\<open>vk::FormatFeatureFlagBits\<close> the function tests, as Vulkan defines them.\<close>

definition eSampledImage :: "32 word" where "eSampledImage = 0x1"
definition eStorageImage :: "32 word" where "eStorageImage = 0x2"
definition eStorageImageAtomic :: "32 word" where "eStorageImageAtomic = 0x4"
definition eUniformTexelBuffer :: "32 word" where "eUniformTexelBuffer = 0x8"
definition eStorageTexelBuffer :: "32 word" where "eStorageTexelBuffer = 0x10"
definition eStorageTexelBufferAtomic :: "32 word" where "eStorageTexelBufferAtomic = 0x20"
definition eVertexBuffer :: "32 word" where "eVertexBuffer = 0x40"
definition eColorAttachment :: "32 word" where "eColorAttachment = 0x80"
definition eColorAttachmentBlend :: "32 word" where "eColorAttachmentBlend = 0x100"
definition eDepthStencilAttachment :: "32 word" where "eDepthStencilAttachment = 0x200"
definition eSampledImageFilterLinear :: "32 word" where "eSampledImageFilterLinear = 0x1000"

record FormatProperties =
  bufferFeatures :: "32 word"
  optimalTilingFeatures :: "32 word"

text \<open>
  \<open>getFormatProperties\<close> is the physical device's answer for the converted format. Each
  \<^verbatim>\<open>if\<close> of the source adds its categories or nothing, in the source's order.
\<close>

definition queryFormatSupport :: "(Format \<Rightarrow> FormatProperties) \<Rightarrow> Format \<Rightarrow> FormatSupport set" where
  "queryFormatSupport getFormatProperties format =
     (let props = getFormatProperties format;
          r0 = {};
          r1 = (if bufferFeatures props \<noteq> 0 then r0 \<union> {Buffer} else r0);
          r2 = (if format = R32_UINT \<or> format = R16_UINT then r1 \<union> {IndexBuffer} else r1);
          r3 = (if bufferFeatures props AND eVertexBuffer \<noteq> 0 then r2 \<union> {VertexBuffer} else r2);
          r4 = (if optimalTilingFeatures props \<noteq> 0 then r3 \<union> {Texture} else r3);
          r5 = (if optimalTilingFeatures props AND eDepthStencilAttachment \<noteq> 0
                then r4 \<union> {DepthStencil} else r4);
          r6 = (if optimalTilingFeatures props AND eColorAttachment \<noteq> 0
                then r5 \<union> {RenderTarget} else r5);
          r7 = (if optimalTilingFeatures props AND eColorAttachmentBlend \<noteq> 0
                then r6 \<union> {Blendable} else r6);
          r8 = (if optimalTilingFeatures props AND eSampledImage \<noteq> 0
                   \<or> bufferFeatures props AND eUniformTexelBuffer \<noteq> 0
                then r7 \<union> {ShaderLoad} else r7);
          r9 = (if optimalTilingFeatures props AND eSampledImageFilterLinear \<noteq> 0
                then r8 \<union> {ShaderSample} else r8);
          r10 = (if optimalTilingFeatures props AND eStorageImage \<noteq> 0
                    \<or> bufferFeatures props AND eStorageTexelBuffer \<noteq> 0
                 then (r9 \<union> {ShaderUavLoad}) \<union> {ShaderUavStore} else r9);
          r11 = (if optimalTilingFeatures props AND eStorageImageAtomic \<noteq> 0
                    \<or> bufferFeatures props AND eStorageTexelBufferAtomic \<noteq> 0
                 then r10 \<union> {ShaderAtomic} else r10)
      in r11)"

subsection \<open>getTextureTiling\<close>

record TextureDesc =
  width :: "32 word"
  height :: "32 word"
  depth :: "32 word"
  mipLevels :: "32 word"

record Texture =
  desc :: TextureDesc
  imageInfo_mipLevels :: "32 word"
  tileByteSize :: "64 word"

record SparseImageMemoryRequirements =
  imageMipTailFirstLod :: "32 word"
  imageMipTailOffset :: "64 word"
  imageMipTailSize :: "64 word"

record Extent3D =
  granularityWidth :: "32 word"
  granularityHeight :: "32 word"
  granularityDepth :: "32 word"

text \<open>What the device answers about the texture's image in the three native queries.\<close>

record ImageQueries =
  imageSparseMemoryRequirements :: "SparseImageMemoryRequirements list"
  sparseImageFormatProperties :: "Extent3D list"
  imageMemoryRequirementsSize :: "64 word"

text \<open>The values the source assigns to the four fields of \<^verbatim>\<open>*desc\<close>.\<close>

record PackedMipDesc =
  numStandardMips :: "32 word"
  numPackedMips :: "32 word"
  packedStartTileIndexInOverallResource :: "32 word"
  numTilesForPackedMips :: "32 word"

record TileShape =
  widthInTexels :: "32 word"
  heightInTexels :: "32 word"
  depthInTexels :: "32 word"

record SubresourceTiling =
  widthInTiles :: "32 word"
  heightInTiles :: "32 word"
  depthInTiles :: "32 word"
  startTileIndexInOverallResource :: "32 word"

definition UINT32_MAX :: "32 word" where
  "UINT32_MAX = 0xFFFFFFFF"

text \<open>The loop's running variables: the current extents and the tile index accumulator.\<close>

record TilingCursor =
  curWidth :: "32 word"
  curHeight :: "32 word"
  curDepth :: "32 word"
  curStartTile :: "32 word"

text \<open>What iteration \<open>i\<close> stores into \<^verbatim>\<open>subresourceTilings[i]\<close>.\<close>

definition mipTiling :: "32 word \<Rightarrow> TileShape \<Rightarrow> nat \<Rightarrow> TilingCursor \<Rightarrow> SubresourceTiling" where
  "mipTiling nStandardMips tile i cur =
     (if i < unat nStandardMips
      then \<lparr> widthInTiles = (curWidth cur + widthInTexels tile - 1) div widthInTexels tile,
             heightInTiles = (curHeight cur + heightInTexels tile - 1) div heightInTexels tile,
             depthInTiles = (curDepth cur + depthInTexels tile - 1) div depthInTexels tile,
             startTileIndexInOverallResource = curStartTile cur \<rparr>
      else \<lparr> widthInTiles = 0, heightInTiles = 0, depthInTiles = 0,
             startTileIndexInOverallResource = UINT32_MAX \<rparr>)"

text \<open>The end of an iteration: the extents halve, clamped to the tile, and the index advances.\<close>

definition nextCursor :: "TileShape \<Rightarrow> TilingCursor \<Rightarrow> SubresourceTiling \<Rightarrow> TilingCursor" where
  "nextCursor tile cur t =
     \<lparr> curWidth = max (curWidth cur div 2) (widthInTexels tile),
       curHeight = max (curHeight cur div 2) (heightInTexels tile),
       curDepth = max (curDepth cur div 2) (depthInTexels tile),
       curStartTile = curStartTile cur + widthInTiles t * heightInTiles t * depthInTiles t \<rparr>"

text \<open>
  The \<^verbatim>\<open>for\<close> loop over the caller's array (\<open>None\<close> for a null pointer). A standard mip
  divides by the tile extents, which faults on a zero; each store needs the array to reach
  index \<open>i\<close>.
\<close>

function tilingLoop ::
  "32 word \<Rightarrow> TileShape \<Rightarrow> nat \<Rightarrow> nat \<Rightarrow> TilingCursor \<Rightarrow> SubresourceTiling list option
     \<Rightarrow> Fault + SubresourceTiling list option" where
  "tilingLoop nStandardMips tile i n cur arr =
     (if i < n
      then (if i < unat nStandardMips \<and> widthInTexels tile = 0 then Inl DivisionByZero
            else case arr of
                   None \<Rightarrow> Inl NullPointerDereference
                 | Some xs \<Rightarrow>
                     if \<not> i < length xs then Inl IndexOutOfBounds
                     else if i < unat nStandardMips
                             \<and> (heightInTexels tile = 0 \<or> depthInTexels tile = 0)
                     then Inl DivisionByZero
                     else let t = mipTiling nStandardMips tile i cur
                          in tilingLoop nStandardMips tile (i + 1) n (nextCursor tile cur t)
                               (Some (xs[i := t])))
      else Inr arr)"
  by pat_completeness auto
termination
  by (relation "measure (\<lambda>(nStandardMips, tile, i, n, cur, arr). n - i)") auto

declare tilingLoop.simps [simp del]

text \<open>
  The two values the function takes from the native queries before the loop: the first
  mip of the packed tail (0 when the answer is empty) and the tile extents (1 by 1 by 1
  when the answer is empty).
\<close>

definition numStandardMipsOf :: "ImageQueries \<Rightarrow> 32 word" where
  "numStandardMipsOf q =
     (if imageSparseMemoryRequirements q \<noteq> []
      then imageMipTailFirstLod (hd (imageSparseMemoryRequirements q)) else 0)"

definition tileShapeOf :: "ImageQueries \<Rightarrow> TileShape" where
  "tileShapeOf q =
     (if sparseImageFormatProperties q \<noteq> []
      then \<lparr> widthInTexels = granularityWidth (hd (sparseImageFormatProperties q)),
             heightInTexels = granularityHeight (hd (sparseImageFormatProperties q)),
             depthInTexels = granularityDepth (hd (sparseImageFormatProperties q)) \<rparr>
      else \<lparr> widthInTexels = 1, heightInTexels = 1, depthInTexels = 1 \<rparr>)"

text \<open>The loop's variables before the first iteration.\<close>

definition firstCursor :: "Texture \<Rightarrow> TilingCursor" where
  "firstCursor texture =
     \<lparr> curWidth = width (desc texture), curHeight = height (desc texture),
       curDepth = depth (desc texture), curStartTile = 0 \<rparr>"

record TilingOutputs =
  out_numTiles :: "32 word option"
  out_desc :: "PackedMipDesc option"
  out_tileShape :: "TileShape option"
  out_subresourceTilingsNum :: "32 word option"
  out_subresourceTilings :: "SubresourceTiling list option"

text \<open>
  \<^verbatim>\<open>getTextureTiling\<close>. The three plain output pointers are given as "non-null?"; the
  count is in and out; the array comes with its contents. \<^verbatim>\<open>memoryRequirements[0]\<close> on
  an empty answer and a division by a zero \<^verbatim>\<open>tileByteSize\<close> are faults.
\<close>

definition getTextureTiling ::
  "ImageQueries \<Rightarrow> Texture \<Rightarrow> bool \<Rightarrow> bool \<Rightarrow> bool \<Rightarrow> 32 word option
     \<Rightarrow> SubresourceTiling list option \<Rightarrow> Fault + TilingOutputs" where
  "getTextureTiling q texture numTiles wantDesc tileShape subresourceTilingsNum subresourceTilings =
     (let memoryRequirements = imageSparseMemoryRequirements q;
          nStandardMips = numStandardMipsOf q
      in if wantDesc \<and> (memoryRequirements = [] \<or> tileByteSize texture = 0)
         then Inl (if memoryRequirements = [] then IndexOutOfBounds else DivisionByZero)
         else
         let descOut =
               (if wantDesc
                then Some \<lparr> numStandardMips = nStandardMips,
                            numPackedMips = imageInfo_mipLevels texture
                                            - imageMipTailFirstLod (hd memoryRequirements),
                            packedStartTileIndexInOverallResource =
                              ucast (imageMipTailOffset (hd memoryRequirements) div tileByteSize texture),
                            numTilesForPackedMips =
                              ucast (imageMipTailSize (hd memoryRequirements) div tileByteSize texture) \<rparr>
                else None);
             tile = tileShapeOf q;
             shapeOut = (if tileShape then Some tile else None);
             numOut = (case subresourceTilingsNum of
                         None \<Rightarrow> None
                       | Some n \<Rightarrow> Some (min n (mipLevels (desc texture))))
         in case (case numOut of
                    None \<Rightarrow> Inr subresourceTilings
                  | Some n \<Rightarrow>
                      tilingLoop nStandardMips tile 0 (unat n) (firstCursor texture)
                        subresourceTilings) of
              Inl f \<Rightarrow> Inl f
            | Inr arr \<Rightarrow>
                if numTiles \<and> tileByteSize texture = 0 then Inl DivisionByZero
                else Inr \<lparr> out_numTiles =
                             (if numTiles
                              then Some (ucast (imageMemoryRequirementsSize q div tileByteSize texture))
                              else None),
                           out_desc = descOut,
                           out_tileShape = shapeOut,
                           out_subresourceTilingsNum = numOut,
                           out_subresourceTilings = arr \<rparr>)"

subsection \<open>createHeap\<close>

text \<open>\<open>OtherHeapType\<close> stands for a value of the enumeration outside its three enumerators.\<close>

datatype HeapType = DeviceLocal | Upload | Readback | OtherHeapType nat

record HeapDesc =
  capacity :: "64 word"
  heapType :: HeapType
  debugName :: string

record MemoryRequirements =
  memorySize :: "64 word"
  alignment :: "64 word"
  memoryTypeBits :: "32 word"

text \<open>The bits of \<^verbatim>\<open>vk::MemoryPropertyFlagBits\<close> the function uses, as Vulkan defines them.\<close>

definition eDeviceLocal :: "32 word" where "eDeviceLocal = 0x1"
definition eHostVisible :: "32 word" where "eHostVisible = 0x2"
definition eHostCached :: "32 word" where "eHostCached = 0x8"

record Heap =
  heapDesc :: HeapDesc
  managed :: bool
  memory :: nat

text \<open>
  Everything \<^verbatim>\<open>createHeap\<close> does besides returning: diagnostics, the allocator's calls,
  the naming of the native object, the deletion of the heap object.
\<close>

datatype Effect =
    Report Diagnostic
  | AllocateMemory MemoryRequirements "32 word" bool
  | FreeMemory nat
  | SetDebugUtilsObjectName nat string
  | DebugMarkerSetObjectName nat string
  | DeleteHeap

text \<open>
  The collaborators defined outside this file: the allocator's \<^verbatim>\<open>allocateMemory\<close>, which
  gives a result code and leaves a memory handle in the heap, and the two formatting
  helpers of the failure message.
\<close>

record HeapCollaborators =
  allocateMemory :: "MemoryRequirements \<Rightarrow> 32 word \<Rightarrow> bool \<Rightarrow> Result \<times> nat"
  DebugNameToString :: "string \<Rightarrow> string"
  resultToString :: "Result \<Rightarrow> string"

text \<open>\<^verbatim>\<open>Heap::~Heap\<close>: managed memory that is still held goes back to the allocator.\<close>

definition Heap_dtor :: "Heap \<Rightarrow> Effect list" where
  "Heap_dtor heap = (if memory heap \<noteq> 0 \<and> managed heap then [FreeMemory (memory heap)] else [])"

text \<open>
  The C string \<^verbatim>\<open>c_str()\<close> gives for a name: its characters up to the first NUL. It is
  never a null pointer, and \<^verbatim>\<open>*name\<close> is its first character, NUL when it is empty.
\<close>

definition c_str :: "string \<Rightarrow> string" where
  "c_str name = takeWhile (\<lambda>c. c \<noteq> CHR 0x00) name"

text \<open>\<^verbatim>\<open>VulkanContext::nameVKObject\<close>, called with the C string of a name.\<close>

definition nameVKObject :: "VulkanContext \<Rightarrow> nat \<Rightarrow> string \<Rightarrow> Effect list" where
  "nameVKObject ctx handle name =
     (if \<not> (c_str name \<noteq> [] \<and> handle \<noteq> 0) then []
      else if EXT_debug_utils (extensions ctx) then [SetDebugUtilsObjectName handle (c_str name)]
      else if EXT_debug_marker (extensions ctx) then [DebugMarkerSetObjectName handle (c_str name)]
      else [])"

text \<open>The switch over the heap type; \<open>None\<close> is its \<^verbatim>\<open>default\<close> branch.\<close>

fun memoryPropertyFlagsFor :: "HeapType \<Rightarrow> 32 word option" where
  "memoryPropertyFlagsFor DeviceLocal = Some eDeviceLocal"
| "memoryPropertyFlagsFor Upload = Some eHostVisible"
| "memoryPropertyFlagsFor Readback = Some (eHostVisible OR eHostCached)"
| "memoryPropertyFlagsFor (OtherHeapType n) = None"

record HeapCreation =
  heapHandle :: "Heap option"
  effects :: "Effect list"

definition createHeap :: "HeapCollaborators \<Rightarrow> Device \<Rightarrow> HeapDesc \<Rightarrow> HeapCreation" where
  "createHeap ext dev d =
     (let memoryRequirements =
            \<lparr> memorySize = capacity d, alignment = 0, memoryTypeBits = NOT 0 \<rparr>
      in case memoryPropertyFlagsFor (heapType d) of
           None \<Rightarrow> \<lparr> heapHandle = None, effects = [Report InvalidEnum] \<rparr>
         | Some memoryPropertyFlags \<Rightarrow>
             (let enableDeviceAddress = buffer_device_address (extensions (m_Context dev));
                  (res, mem) = allocateMemory ext memoryRequirements memoryPropertyFlags enableDeviceAddress;
                  heap = \<lparr> heapDesc = d, managed = True, memory = mem \<rparr>;
                  allocation = AllocateMemory memoryRequirements memoryPropertyFlags enableDeviceAddress
              in if res \<noteq> eSuccess
                 then \<lparr> heapHandle = None,
                        effects = [allocation,
                                   Report (error (''Failed to allocate memory for Heap ''
                                                  @ DebugNameToString ext (debugName d)
                                                  @ '', VkResult = '' @ resultToString ext res)),
                                   DeleteHeap]
                                  @ Heap_dtor heap \<rparr>
                 else \<lparr> heapHandle = Some heap,
                        effects = [allocation]
                                  @ (if debugName d \<noteq> []
                                     then nameVKObject (m_Context dev) (memory heap) (debugName d)
                                     else []) \<rparr>))"

section \<open>Vocabulary of the statements and example inputs\<close>

definition plainBuild :: BuildConfig where
  "plainBuild = \<lparr> NVRHI_WITH_RTXMU = False, NVRHI_WITH_AFTERMATH = False \<rparr>"

definition rtxmuBuild :: BuildConfig where
  "rtxmuBuild = \<lparr> NVRHI_WITH_RTXMU = True, NVRHI_WITH_AFTERMATH = False \<rparr>"

definition examplePhysicalDevice :: "32 word \<Rightarrow> PhysicalDevice" where
  "examplePhysicalDevice lanes =
     \<lparr> reportedSubgroupSize = lanes,
       reportedShadingRateTexelSize = \<lparr> extentWidth = 16, extentHeight = 8 \<rparr>,
       reportedReorderingHint = eReorder,
       reportedAttachmentFragmentShadingRate = True,
       reportedCooperativeVector = True,
       reportedCooperativeVectorTraining = False,
       createPipelineCacheResult = 0,
       createDescriptorSetLayoutResult = 0 \<rparr>"

text \<open>A descriptor with a graphics and a compute queue and no transfer queue.\<close>

definition exampleDesc :: "string list \<Rightarrow> DeviceDesc" where
  "exampleDesc names =
     \<lparr> graphicsQueue = 11, graphicsQueueIndex = 0,
       computeQueue = 12, computeQueueIndex = 1,
       transferQueue = 0, transferQueueIndex = -1,
       instanceExtensions = [''VK_EXT_debug_utils'', ''VK_KHR_surface''],
       deviceExtensions = names,
       bufferDeviceAddressSupported = False \<rparr>"

definition exampleDevice :: "32 word \<Rightarrow> Device" where
  "exampleDevice lanes =
     fst (Device_ctor plainBuild (examplePhysicalDevice lanes)
            (exampleDesc [''VK_KHR_fragment_shading_rate'']))"

text \<open>The diagnostics of warning severity among those a call sent.\<close>

definition warningsOf :: "Diagnostic list \<Rightarrow> Diagnostic list" where
  "warningsOf diags = filter (\<lambda>x. case x of Message Warning m \<Rightarrow> True | _ \<Rightarrow> False) diags"

text \<open>The allocation requests and the diagnostics among the effects of a call.\<close>

definition allocationRequests :: "Effect list \<Rightarrow> (MemoryRequirements \<times> 32 word \<times> bool) list" where
  "allocationRequests effs =
     concat (map (\<lambda>x. case x of AllocateMemory req flags devAddr \<Rightarrow> [(req, flags, devAddr)] | _ \<Rightarrow> []) effs)"

definition diagnosticsOf :: "Effect list \<Rightarrow> Diagnostic list" where
  "diagnosticsOf effs = concat (map (\<lambda>x. case x of Report g \<Rightarrow> [g] | _ \<Rightarrow> []) effs)"

text \<open>An allocator that answers every request with the given result code.\<close>

definition exampleCollaborators :: "Result \<Rightarrow> HeapCollaborators" where
  "exampleCollaborators res =
     \<lparr> allocateMemory = (\<lambda>req flags devAddr. (res, if res = 0 then 77 else 0)),
       DebugNameToString = (\<lambda>name. if name = [] then ''<UNNAMED>'' else name),
       resultToString = (\<lambda>r. if r = 0 then ''VK_SUCCESS'' else ''VK_ERROR_OUT_OF_DEVICE_MEMORY'') \<rparr>"

definition exampleHeapDesc :: "HeapType \<Rightarrow> HeapDesc" where
  "exampleHeapDesc t = \<lparr> capacity = 65536, heapType = t, debugName = ''Scratch'' \<rparr>"





text \<open>
  For the statements about \<open>getTextureTiling\<close>: the extent of mip \<open>i\<close> along one axis
  (halved at each level, never below the tile extent), the number of tiles of a reported
  mip, the loop's variables at the start of iteration \<open>j\<close>, the number of mips a call
  reports, the entries it reports, and the range in which none of the loop's additions
  and multiplications wraps around for reasons of size alone.
\<close>

primrec mipExtent :: "32 word \<Rightarrow> 32 word \<Rightarrow> nat \<Rightarrow> 32 word" where
  "mipExtent e t 0 = e"
| "mipExtent e t (Suc i) = max (mipExtent e t i div 2) t"

definition tilesInMip :: "SubresourceTiling \<Rightarrow> nat" where
  "tilesInMip t = unat (widthInTiles t) * unat (heightInTiles t) * unat (depthInTiles t)"

primrec cursorAt :: "32 word \<Rightarrow> TileShape \<Rightarrow> TilingCursor \<Rightarrow> nat \<Rightarrow> TilingCursor" where
  "cursorAt K tile c 0 = c"
| "cursorAt K tile c (Suc j) =
     nextCursor tile (cursorAt K tile c j) (mipTiling K tile j (cursorAt K tile c j))"

definition reportedCount :: "32 word \<Rightarrow> Texture \<Rightarrow> nat" where
  "reportedCount requested texture = unat (min requested (mipLevels (desc texture)))"

definition reportedTilings :: "TilingOutputs \<Rightarrow> SubresourceTiling list" where
  "reportedTilings out =
     (case (out_subresourceTilingsNum out, out_subresourceTilings out) of
        (Some n, Some ys) \<Rightarrow> take (unat n) ys
      | _ \<Rightarrow> [])"

definition unmappedTiling :: SubresourceTiling where
  "unmappedTiling =
     \<lparr> widthInTiles = 0, heightInTiles = 0, depthInTiles = 0,
       startTileIndexInOverallResource = UINT32_MAX \<rparr>"

definition extentsInRange :: "Texture \<Rightarrow> TileShape \<Rightarrow> bool" where
  "extentsInRange texture tile =
     (width (desc texture) \<noteq> 0 \<and> height (desc texture) \<noteq> 0 \<and> depth (desc texture) \<noteq> 0
      \<and> unat (width (desc texture)) < 2 ^ 31 \<and> unat (height (desc texture)) < 2 ^ 31
      \<and> unat (depth (desc texture)) < 2 ^ 31
      \<and> unat (widthInTexels tile) < 2 ^ 31 \<and> unat (heightInTexels tile) < 2 ^ 31
      \<and> unat (depthInTexels tile) < 2 ^ 31)"

text \<open>
  A texture and the answers of the native queries about it, an array whose entries are
  told apart from anything the loop writes, and the outputs of the example call.
\<close>

definition exampleTexture :: "32 word \<Rightarrow> 32 word \<Rightarrow> 32 word \<Rightarrow> 32 word \<Rightarrow> Texture" where
  "exampleTexture w h d mips =
     \<lparr> desc = \<lparr> width = w, height = h, depth = d, mipLevels = mips \<rparr>,
       imageInfo_mipLevels = mips, tileByteSize = 65536 \<rparr>"

definition exampleQueries :: "32 word \<Rightarrow> Extent3D list \<Rightarrow> ImageQueries" where
  "exampleQueries firstTailMip granularity =
     \<lparr> imageSparseMemoryRequirements =
         [\<lparr> imageMipTailFirstLod = firstTailMip, imageMipTailOffset = 0x1000000, imageMipTailSize = 65536 \<rparr>],
       sparseImageFormatProperties = granularity,
       imageMemoryRequirementsSize = 0x2000000 \<rparr>"

definition noTiling :: SubresourceTiling where
  "noTiling = \<lparr> widthInTiles = 9, heightInTiles = 9, depthInTiles = 9, startTileIndexInOverallResource = 9 \<rparr>"

definition exampleGranularity :: Extent3D where
  "exampleGranularity = \<lparr> granularityWidth = 128, granularityHeight = 128, granularityDepth = 1 \<rparr>"

definition exampleTilings :: "SubresourceTiling list" where
  "exampleTilings =
     [ \<lparr> widthInTiles = 8, heightInTiles = 4, depthInTiles = 1, startTileIndexInOverallResource = 0 \<rparr>,
       \<lparr> widthInTiles = 4, heightInTiles = 2, depthInTiles = 1, startTileIndexInOverallResource = 32 \<rparr>,
       \<lparr> widthInTiles = 2, heightInTiles = 1, depthInTiles = 1, startTileIndexInOverallResource = 40 \<rparr>,
       unmappedTiling ]"

definition exampleArray :: "SubresourceTiling list" where
  "exampleArray = [noTiling, noTiling, noTiling, noTiling, noTiling]"

definition exampleOutputs :: TilingOutputs where
  "exampleOutputs =
     \<lparr> out_numTiles = None, out_desc = None, out_tileShape = None,
       out_subresourceTilingsNum = Some 4,
       out_subresourceTilings = Some (exampleTilings @ [noTiling]) \<rparr>"

section \<open>Properties\<close>

lemmas example_defs = plainBuild_def rtxmuBuild_def examplePhysicalDevice_def exampleDesc_def
  exampleDevice_def Device_ctor_def parseExtensions_def enableExtension_def
  extensionStringMap_def noExtensions_def newQueue_def warningsOf_def warning_def error_def
  eSuccess_def answer_def

subsection \<open>Opacity micromaps\<close>

text \<open>
  Claim C1, as stated, fails in a build with \<^verbatim>\<open>NVRHI_WITH_RTXMU\<close>: a device constructed
  with both the opacity-micromap and the synchronization-2 extension answers false.
\<close>

theorem opacity_micromap_rtxmu_counterexample:
  "EXT_opacity_micromap (extensions (m_Context (fst (Device_ctor rtxmuBuild (examplePhysicalDevice 32)
        (exampleDesc [''VK_EXT_opacity_micromap'', ''VK_KHR_synchronization2''])))))
   \<and> KHR_synchronization2 (extensions (m_Context (fst (Device_ctor rtxmuBuild (examplePhysicalDevice 32)
        (exampleDesc [''VK_EXT_opacity_micromap'', ''VK_KHR_synchronization2''])))))
   \<and> \<not> supported (queryFeatureSupport rtxmuBuild (fst (Device_ctor rtxmuBuild (examplePhysicalDevice 32)
        (exampleDesc [''VK_EXT_opacity_micromap'', ''VK_KHR_synchronization2''])))
        RayTracingOpacityMicromap None 0)"
  by (simp add: example_defs)

text \<open>
  Claim C1, amended: in a build without \<^verbatim>\<open>NVRHI_WITH_RTXMU\<close>,
  \<open>queryFeatureSupport RayTracingOpacityMicromap\<close> returns true if and only if both the
  opacity-micromap flag and the synchronization-2 flag are set, and a construction that
  sets the micromap flag without the synchronization-2 flag sends exactly one warning; in
  a build with \<^verbatim>\<open>NVRHI_WITH_RTXMU\<close> the query returns false whatever the flags.
\<close>

theorem opacity_micromap_needs_both_flags:
  "(NVRHI_WITH_RTXMU cfg \<longrightarrow>
      \<not> supported (queryFeatureSupport cfg dev RayTracingOpacityMicromap pInfo infoSize))
   \<and> (\<not> NVRHI_WITH_RTXMU cfg \<longrightarrow>
        supported (queryFeatureSupport cfg dev RayTracingOpacityMicromap pInfo infoSize)
          = (EXT_opacity_micromap (extensions (m_Context dev))
             \<and> KHR_synchronization2 (extensions (m_Context dev))))
   \<and> (\<not> NVRHI_WITH_RTXMU cfg
        \<and> EXT_opacity_micromap (extensions (m_Context (fst (Device_ctor cfg pd dd))))
        \<and> \<not> KHR_synchronization2 (extensions (m_Context (fst (Device_ctor cfg pd dd))))
      \<longrightarrow> warningsOf (snd (Device_ctor cfg pd dd)) = [warning omm_without_sync2_message])"
  by (simp add: answer_def Device_ctor_def Let_def warningsOf_def warning_def error_def)

text \<open>
  The amended claim C1 at a device constructed with the micromap extension alone in a
  plain build, and at one constructed with both extensions in an RTXMU build.
\<close>

theorem opacity_micromap_needs_both_flags_witness:
  "\<not> NVRHI_WITH_RTXMU plainBuild
   \<and> EXT_opacity_micromap (extensions (m_Context (fst (Device_ctor plainBuild (examplePhysicalDevice 32)
        (exampleDesc [''VK_EXT_opacity_micromap''])))))
   \<and> \<not> KHR_synchronization2 (extensions (m_Context (fst (Device_ctor plainBuild (examplePhysicalDevice 32)
        (exampleDesc [''VK_EXT_opacity_micromap''])))))
   \<and> \<not> supported (queryFeatureSupport plainBuild (fst (Device_ctor plainBuild (examplePhysicalDevice 32)
        (exampleDesc [''VK_EXT_opacity_micromap'']))) RayTracingOpacityMicromap None 0)
   \<and> warningsOf (snd (Device_ctor plainBuild (examplePhysicalDevice 32)
        (exampleDesc [''VK_EXT_opacity_micromap'']))) = [warning omm_without_sync2_message]
   \<and> NVRHI_WITH_RTXMU rtxmuBuild
   \<and> \<not> supported (queryFeatureSupport rtxmuBuild (fst (Device_ctor rtxmuBuild (examplePhysicalDevice 32)
        (exampleDesc [''VK_EXT_opacity_micromap'', ''VK_KHR_synchronization2''])))
        RayTracingOpacityMicromap None 0)"
  using opacity_micromap_needs_both_flags [of plainBuild
          "fst (Device_ctor plainBuild (examplePhysicalDevice 32) (exampleDesc [''VK_EXT_opacity_micromap'']))"
          None 0 "examplePhysicalDevice 32" "exampleDesc [''VK_EXT_opacity_micromap'']"]
        opacity_micromap_needs_both_flags [of rtxmuBuild
          "fst (Device_ctor rtxmuBuild (examplePhysicalDevice 32)
                 (exampleDesc [''VK_EXT_opacity_micromap'', ''VK_KHR_synchronization2'']))" None 0]
  by (simp add: example_defs)

subsection \<open>Output buffers of queryFeatureSupport\<close>

text \<open>
  Claim C3, as stated, fails for \<open>WaveLaneCountMinMax\<close> on a device whose subgroup size
  is zero: the call returns before the size is looked at and reports nothing.
\<close>

theorem size_mismatch_unreported_counterexample:
  "(5::nat) \<noteq> sizeof_WaveLaneCountMinMaxFeatureInfo
   \<and> UnsupportedOperation
       \<notin> set (reported (queryFeatureSupport plainBuild (exampleDevice 0) WaveLaneCountMinMax (Some [7, 9]) 5))"
  by (simp add: example_defs sizeof_WaveLaneCountMinMaxFeatureInfo_def)

text \<open>
  Claim C3, amended: in every call of \<open>queryFeatureSupport\<close> the returned boolean is the
  one the call would return with no output buffer; a non-null buffer whose size differs
  from the payload size is reported as UnsupportedOperation for \<open>VariableRateShading\<close>,
  and for \<open>WaveLaneCountMinMax\<close> when the cached subgroup size is not zero.
\<close>

theorem size_mismatch_keeps_boolean:
  "supported (queryFeatureSupport cfg dev feature pInfo infoSize)
     = supported (queryFeatureSupport cfg dev feature None infoSize)
   \<and> (pInfo \<noteq> None
        \<and> (feature = VariableRateShading \<and> infoSize \<noteq> sizeof_VariableRateShadingFeatureInfo
           \<or> feature = WaveLaneCountMinMax \<and> subgroupSize (m_Context dev) \<noteq> 0
              \<and> infoSize \<noteq> sizeof_WaveLaneCountMinMaxFeatureInfo)
      \<longrightarrow> reported (queryFeatureSupport cfg dev feature pInfo infoSize) = [UnsupportedOperation])"
  by (cases feature) (auto simp: answer_def Let_def split: option.splits)

text \<open>The amended claim C3 at a lane-count query with a five-byte buffer.\<close>

theorem size_mismatch_keeps_boolean_witness:
  "subgroupSize (m_Context (exampleDevice 32)) \<noteq> 0
   \<and> (5::nat) \<noteq> sizeof_WaveLaneCountMinMaxFeatureInfo
   \<and> supported (queryFeatureSupport plainBuild (exampleDevice 32) WaveLaneCountMinMax (Some [7, 9]) 5)
   \<and> supported (queryFeatureSupport plainBuild (exampleDevice 32) WaveLaneCountMinMax None 5)
   \<and> reported (queryFeatureSupport plainBuild (exampleDevice 32) WaveLaneCountMinMax (Some [7, 9]) 5)
       = [UnsupportedOperation]"
  using size_mismatch_keeps_boolean [of plainBuild "exampleDevice 32" WaveLaneCountMinMax "Some [7, 9]" 5]
  by (simp add: example_defs sizeof_WaveLaneCountMinMaxFeatureInfo_def)

text \<open>
  Claim C10: for \<open>WaveLaneCountMinMax\<close>, a cached subgroup size of zero makes the call
  return false and leave the output buffer as it was, whatever the pointer and the size;
  the buffer changes only when the subgroup size is not zero, and then a buffer of the
  right size receives the subgroup size as both bounds.
\<close>

theorem zero_subgroup_size_leaves_buffer:
  "(subgroupSize (m_Context dev) = 0 \<longrightarrow>
      queryFeatureSupport cfg dev WaveLaneCountMinMax pInfo infoSize
        = \<lparr> supported = False, infoAfter = pInfo, reported = [] \<rparr>)
   \<and> (infoAfter (queryFeatureSupport cfg dev WaveLaneCountMinMax pInfo infoSize) \<noteq> pInfo
        \<longrightarrow> subgroupSize (m_Context dev) \<noteq> 0)
   \<and> (subgroupSize (m_Context dev) \<noteq> 0 \<and> infoSize = sizeof_WaveLaneCountMinMaxFeatureInfo
        \<longrightarrow> queryFeatureSupport cfg dev WaveLaneCountMinMax (Some mem) infoSize
            = \<lparr> supported = True,
                infoAfter = Some (mem[0 := subgroupSize (m_Context dev), 1 := subgroupSize (m_Context dev)]),
                reported = [] \<rparr>)"
  by (auto simp: answer_def set_minWaveLaneCount_def set_maxWaveLaneCount_def split: option.splits)

text \<open>Claim C10 at a device reporting no subgroup size, and at one reporting 32 lanes.\<close>

theorem zero_subgroup_size_leaves_buffer_witness:
  "subgroupSize (m_Context (exampleDevice 0)) = 0
   \<and> sizeof_WaveLaneCountMinMaxFeatureInfo = 8
   \<and> queryFeatureSupport plainBuild (exampleDevice 0) WaveLaneCountMinMax (Some [7, 9]) 8
       = \<lparr> supported = False, infoAfter = Some [7, 9], reported = [] \<rparr>
   \<and> subgroupSize (m_Context (exampleDevice 32)) \<noteq> 0
   \<and> infoAfter (queryFeatureSupport plainBuild (exampleDevice 32) WaveLaneCountMinMax (Some [7, 9]) 8)
       \<noteq> Some [7, 9]
   \<and> queryFeatureSupport plainBuild (exampleDevice 32) WaveLaneCountMinMax (Some [7, 9]) 8
       = \<lparr> supported = True, infoAfter = Some [32, 32], reported = [] \<rparr>"
  using zero_subgroup_size_leaves_buffer [of "exampleDevice 0" plainBuild "Some [7, 9]" 8 "[7, 9]"]
        zero_subgroup_size_leaves_buffer [of "exampleDevice 32" plainBuild "Some [7, 9]" 8 "[7, 9]"]
  by (simp add: example_defs sizeof_WaveLaneCountMinMaxFeatureInfo_def)

subsection \<open>Index-buffer formats\<close>

text \<open>
  Claim C7: \<open>queryFormatSupport\<close> reports the IndexBuffer category for \<open>R32_UINT\<close> and
  \<open>R16_UINT\<close> and for no other format, whatever feature flags the device reports.
\<close>

theorem index_buffer_formats:
  "IndexBuffer \<in> queryFormatSupport getFormatProperties format
     \<longleftrightarrow> format = R32_UINT \<or> format = R16_UINT"
  by (simp add: queryFormatSupport_def Let_def)

text \<open>
  Claim C7 at a 16-bit index format on a device reporting no feature flag, and at another
  format on a device reporting every flag.
\<close>

theorem index_buffer_formats_witness:
  "IndexBuffer \<in> queryFormatSupport (\<lambda>f. \<lparr> bufferFeatures = 0, optimalTilingFeatures = 0 \<rparr>) R16_UINT
   \<and> IndexBuffer \<notin> queryFormatSupport
        (\<lambda>f. \<lparr> bufferFeatures = 0xFFFFFFFF, optimalTilingFeatures = 0xFFFFFFFF \<rparr>) (OtherFormat 5)"
  using index_buffer_formats [of "\<lambda>f. \<lparr> bufferFeatures = 0, optimalTilingFeatures = 0 \<rparr>" R16_UINT]
        index_buffer_formats [of "\<lambda>f. \<lparr> bufferFeatures = 0xFFFFFFFF, optimalTilingFeatures = 0xFFFFFFFF \<rparr>"
                                 "OtherFormat 5"]
  by simp

subsection \<open>Waiting for the device\<close>

text \<open>
  Claim C9, as stated, fails when the native wait throws an exception other than device
  loss: the call then returns neither true nor false.
\<close>

theorem wait_for_idle_third_outcome_counterexample:
  "waitForIdle (Some OutOfHostMemoryError) \<noteq> Inr True
   \<and> waitForIdle (Some OutOfHostMemoryError) \<noteq> Inr False"
  by (simp add: waitForIdle_def)

text \<open>
  Claim C9, amended: \<open>waitForIdle\<close> returns true exactly when the native wait completes
  and false exactly when it throws the device-loss exception, which never leaves the
  function; any other exception of the native wait leaves the function uncaught.
\<close>

theorem wait_for_idle_outcomes:
  "(waitForIdle waitIdle = Inr True \<longleftrightarrow> waitIdle = None)
   \<and> (waitForIdle waitIdle = Inr False \<longleftrightarrow> waitIdle = Some DeviceLostError)
   \<and> waitForIdle waitIdle \<noteq> Inl (Uncaught DeviceLostError)
   \<and> (waitIdle = Some e \<and> e \<noteq> DeviceLostError \<longrightarrow> waitForIdle waitIdle = Inl (Uncaught e))"
  by (auto simp: waitForIdle_def split: option.splits VkException.splits)

text \<open>The amended claim C9 at each kind of outcome of the native wait.\<close>

theorem wait_for_idle_outcomes_witness:
  "waitForIdle None = Inr True
   \<and> waitForIdle (Some DeviceLostError) = Inr False
   \<and> OutOfDeviceMemoryError \<noteq> DeviceLostError
   \<and> waitForIdle (Some OutOfDeviceMemoryError) = Inl (Uncaught OutOfDeviceMemoryError)"
  using wait_for_idle_outcomes [of None] wait_for_idle_outcomes [of "Some DeviceLostError"]
        wait_for_idle_outcomes [of "Some OutOfDeviceMemoryError" OutOfDeviceMemoryError]
  by simp

subsection \<open>Queue slots\<close>

text \<open>
  Claim C2: on a device whose descriptor gave a graphics and a compute queue and no
  transfer queue, \<open>queryFeatureSupport ComputeQueue\<close> is true and
  \<open>queryFeatureSupport CopyQueue\<close> is false, as the claim says; \<open>getNativeQueue\<close> for the
  copy queue does not return null, as the claim has it, but dereferences the empty slot.
\<close>

theorem absent_copy_queue_is_dereferenced:
  "graphicsQueue dd \<noteq> 0 \<and> computeQueue dd \<noteq> 0 \<and> transferQueue dd = 0
   \<longrightarrow> supported (queryFeatureSupport cfg (fst (Device_ctor cfg pd dd)) ComputeQueue pInfo infoSize)
       \<and> \<not> supported (queryFeatureSupport cfg (fst (Device_ctor cfg pd dd)) CopyQueue pInfo infoSize)
       \<and> getNativeQueue (fst (Device_ctor cfg pd dd)) VK_Queue Copy = Inl NullPointerDereference"
  by (simp add: Device_ctor_def Let_def answer_def getNativeQueue_def queueSlot_def)

text \<open>Claim C2 at the example descriptor; the populated compute slot gives its handle.\<close>

theorem absent_copy_queue_is_dereferenced_witness:
  "graphicsQueue (exampleDesc []) \<noteq> 0 \<and> computeQueue (exampleDesc []) \<noteq> 0
   \<and> transferQueue (exampleDesc []) = 0
   \<and> supported (queryFeatureSupport plainBuild
        (fst (Device_ctor plainBuild (examplePhysicalDevice 32) (exampleDesc []))) ComputeQueue None 0)
   \<and> \<not> supported (queryFeatureSupport plainBuild
        (fst (Device_ctor plainBuild (examplePhysicalDevice 32) (exampleDesc []))) CopyQueue None 0)
   \<and> getNativeQueue (fst (Device_ctor plainBuild (examplePhysicalDevice 32) (exampleDesc []))) VK_Queue Copy
       = Inl NullPointerDereference
   \<and> getNativeQueue (fst (Device_ctor plainBuild (examplePhysicalDevice 32) (exampleDesc []))) VK_Queue Compute
       = Inr 12"
  using absent_copy_queue_is_dereferenced [of "exampleDesc []" plainBuild "examplePhysicalDevice 32" None 0]
  by (simp add: example_defs getNativeQueue_def queueSlot_def getVkQueue_def)

subsection \<open>Heaps\<close>

text \<open>
  Claim C5: \<open>createHeap\<close> asks the allocator once, for device-local memory when the
  heap type is \<open>DeviceLocal\<close>, host-visible memory when it is \<open>Upload\<close>, host-visible and
  host-cached memory when it is \<open>Readback\<close>; for any other heap type it returns null,
  reports exactly one InvalidEnum diagnostic and asks the allocator for nothing.
\<close>

theorem heap_type_selects_memory_flags:
  "(heapType d = DeviceLocal \<longrightarrow>
      map (fst \<circ> snd) (allocationRequests (effects (createHeap ext dev d))) = [eDeviceLocal])
   \<and> (heapType d = Upload \<longrightarrow>
      map (fst \<circ> snd) (allocationRequests (effects (createHeap ext dev d))) = [eHostVisible])
   \<and> (heapType d = Readback \<longrightarrow>
      map (fst \<circ> snd) (allocationRequests (effects (createHeap ext dev d))) = [eHostVisible OR eHostCached])
   \<and> (heapType d \<notin> {DeviceLocal, Upload, Readback} \<longrightarrow>
      heapHandle (createHeap ext dev d) = None
      \<and> diagnosticsOf (effects (createHeap ext dev d)) = [InvalidEnum]
      \<and> allocationRequests (effects (createHeap ext dev d)) = [])"
  by (cases "heapType d")
     (auto simp: createHeap_def Let_def allocationRequests_def diagnosticsOf_def Heap_dtor_def
        nameVKObject_def split: prod.splits)

text \<open>Claim C5 at each of the three heap types and at a value outside them.\<close>

theorem heap_type_selects_memory_flags_witness:
  "map (fst \<circ> snd) (allocationRequests (effects
       (createHeap (exampleCollaborators 0) (exampleDevice 32) (exampleHeapDesc DeviceLocal)))) = [0x1]
   \<and> map (fst \<circ> snd) (allocationRequests (effects
       (createHeap (exampleCollaborators 0) (exampleDevice 32) (exampleHeapDesc Upload)))) = [0x2]
   \<and> map (fst \<circ> snd) (allocationRequests (effects
       (createHeap (exampleCollaborators 0) (exampleDevice 32) (exampleHeapDesc Readback)))) = [0xA]
   \<and> OtherHeapType 3 \<notin> {DeviceLocal, Upload, Readback}
   \<and> createHeap (exampleCollaborators 0) (exampleDevice 32) (exampleHeapDesc (OtherHeapType 3))
       = \<lparr> heapHandle = None, effects = [Report InvalidEnum] \<rparr>"
  using heap_type_selects_memory_flags [of "exampleHeapDesc DeviceLocal" "exampleCollaborators 0" "exampleDevice 32"]
        heap_type_selects_memory_flags [of "exampleHeapDesc Upload" "exampleCollaborators 0" "exampleDevice 32"]
        heap_type_selects_memory_flags [of "exampleHeapDesc Readback" "exampleCollaborators 0" "exampleDevice 32"]
        heap_type_selects_memory_flags [of "exampleHeapDesc (OtherHeapType 3)" "exampleCollaborators 0" "exampleDevice 32"]
  by (simp add: exampleHeapDesc_def eDeviceLocal_def eHostVisible_def eHostCached_def createHeap_def)



subsection \<open>Submission identifiers\<close>














subsection \<open>Texture tiling\<close>

lemma tilingLoop_None:
  "tilingLoop K tile i n cur None = Inr r \<Longrightarrow> n \<le> i \<and> r = None"
  by (subst (asm) tilingLoop.simps) (auto split: if_splits)

lemma tilingLoop_result:
  "tilingLoop K tile i n (cursorAt K tile c i) (Some xs) = Inr r \<Longrightarrow>
     \<exists>ys. r = Some ys \<and> length ys = length xs
        \<and> (\<forall>j. i \<le> j \<and> j < n \<longrightarrow> j < length xs \<and> ys ! j = mipTiling K tile j (cursorAt K tile c j))
        \<and> (\<forall>j < i. ys ! j = xs ! j)"
proof (induction "n - i" arbitrary: i xs)
  case 0
  then have "n \<le> i" by simp
  with "0.prems" show ?case by (subst (asm) tilingLoop.simps) auto
next
  case (Suc k)
  then have lt: "i < n" by simp
  let ?t = "mipTiling K tile i (cursorAt K tile c i)"
  from Suc.prems lt have inb: "i < length xs"
    by (subst (asm) tilingLoop.simps) (auto split: if_splits)
  from Suc.prems lt inb
  have rec: "tilingLoop K tile (Suc i) n (cursorAt K tile c (Suc i)) (Some (xs[i := ?t])) = Inr r"
    by (subst (asm) tilingLoop.simps) (auto simp: Let_def split: if_splits)
  from Suc.hyps(2) lt have "k = n - Suc i" by simp
  from Suc.hyps(1) [OF this rec] obtain ys where
    ys: "r = Some ys" "length ys = length xs"
    and later: "\<forall>j. Suc i \<le> j \<and> j < n \<longrightarrow> j < length xs \<and> ys ! j = mipTiling K tile j (cursorAt K tile c j)"
    and earlier: "\<forall>j < Suc i. ys ! j = xs[i := ?t] ! j"
    by auto
  from earlier inb have here: "ys ! i = ?t" by simp
  have "\<forall>j. i \<le> j \<and> j < n \<longrightarrow> j < length xs \<and> ys ! j = mipTiling K tile j (cursorAt K tile c j)"
  proof (intro allI impI)
    fix j assume j: "i \<le> j \<and> j < n"
    show "j < length xs \<and> ys ! j = mipTiling K tile j (cursorAt K tile c j)"
    proof (cases "j = i")
      case True
      with here inb show ?thesis by simp
    next
      case False
      with j have "Suc i \<le> j \<and> j < n" by simp
      with later show ?thesis by blast
    qed
  qed
  moreover from earlier have "\<forall>j < i. ys ! j = xs ! j" by simp
  ultimately show ?case using ys by blast
qed

lemma tilingLoop_total:
  "widthInTexels tile \<noteq> 0 \<Longrightarrow> heightInTexels tile \<noteq> 0 \<Longrightarrow> depthInTexels tile \<noteq> 0 \<Longrightarrow>
   n \<le> length xs \<Longrightarrow> \<exists>r. tilingLoop K tile i n cur (Some xs) = Inr r"
proof (induction "n - i" arbitrary: i cur xs)
  case 0
  then show ?case by (subst tilingLoop.simps) simp
next
  case (Suc k)
  then have lt: "i < n" "i < length xs" by simp_all
  from Suc.hyps(2) have k: "k = n - Suc i" by simp
  have "n \<le> length (xs[i := mipTiling K tile i cur])" using Suc.prems(4) by simp
  from Suc.hyps(1) [OF k Suc.prems(1-3) this]
  obtain r where "tilingLoop K tile (Suc i) n (nextCursor tile cur (mipTiling K tile i cur))
                    (Some (xs[i := mipTiling K tile i cur])) = Inr r"
    by blast
  with lt Suc.prems(1-3) show ?case
    by (subst tilingLoop.simps) (simp add: Let_def)
qed

lemma cursorAt_extents:
  "curWidth (cursorAt K tile c j) = mipExtent (curWidth c) (widthInTexels tile) j
   \<and> curHeight (cursorAt K tile c j) = mipExtent (curHeight c) (heightInTexels tile) j
   \<and> curDepth (cursorAt K tile c j) = mipExtent (curDepth c) (depthInTexels tile) j"
  by (induction j) (simp_all add: nextCursor_def)

lemma cursorAt_start_Suc:
  "curStartTile (cursorAt K tile c (Suc j))
     = curStartTile (cursorAt K tile c j)
       + widthInTiles (mipTiling K tile j (cursorAt K tile c j))
         * heightInTiles (mipTiling K tile j (cursorAt K tile c j))
         * depthInTiles (mipTiling K tile j (cursorAt K tile c j))"
  by (simp add: nextCursor_def)

lemma unat_triple_product:
  fixes w h d :: "32 word"
  assumes "unat w * unat h * unat d < 2 ^ 32"
  shows "unat (w * h * d) = unat w * unat h * unat d"
proof (cases "d = 0")
  case True
  then show ?thesis by simp
next
  case False
  then have "1 \<le> unat d" by (simp add: unat_gt_0 Suc_leI)
  then have "unat w * unat h \<le> unat w * unat h * unat d" by (cases "unat d") auto
  from this assms have "unat w * unat h < 2 ^ 32" by (rule le_less_trans)
  then have "unat w * unat h < 2 ^ LENGTH(32)" by simp
  then have wh: "unat (w * h) = unat w * unat h" by (simp only: unat_mult_lem)
  with assms have "unat (w * h) * unat d < 2 ^ LENGTH(32)" by simp
  then have "unat (w * h * d) = unat (w * h) * unat d" by (simp only: unat_mult_lem)
  with wh show ?thesis by simp
qed

lemma ceil_tiles_pos:
  fixes e t :: "32 word"
  assumes "e \<noteq> 0" "t \<noteq> 0" "unat e < 2 ^ 31" "unat t < 2 ^ 31"
  shows "(e + t - 1) div t \<noteq> 0"
proof -
  from assms(1,2) have pos: "0 < unat e" "0 < unat t" by (simp_all add: unat_gt_0)
  from assms(3,4) have "unat e + unat t < 2 ^ LENGTH(32)" by simp
  then have et: "unat (e + t) = unat e + unat t" by (simp only: unat_add_lem)
  with pos have "unat (1::32 word) \<le> unat (e + t)" by simp
  then have "unat (e + t - 1) = unat (e + t) - unat (1::32 word)"
    by (simp add: unat_sub word_le_nat_alt)
  with et have num: "unat (e + t - 1) = unat e + unat t - 1" by simp
  have "unat ((e + t - 1) div t) = unat (e + t - 1) div unat t" by (rule unat_div)
  with num have "unat ((e + t - 1) div t) = (unat e + unat t - 1) div unat t" by simp
  moreover from pos have "unat t \<le> unat e + unat t - 1" by simp
  then have "1 \<le> (unat e + unat t - 1) div unat t"
    using pos(2) by (simp add: div_greater_zero_iff Suc_leI)
  ultimately have "0 < unat ((e + t - 1) div t)" by simp
  then show ?thesis by (simp add: unat_gt_0)
qed

lemma ceil_div_unat:
  fixes e t :: "32 word"
  assumes "t \<noteq> 0" "unat e < 2 ^ 31" "unat t < 2 ^ 31"
  shows "unat ((e + t - 1) div t) = (unat e + unat t - 1) div unat t"
proof -
  from assms(1) have pos: "0 < unat t" by (simp add: unat_gt_0)
  from assms(2,3) have "unat e + unat t < 2 ^ LENGTH(32)" by simp
  then have et: "unat (e + t) = unat e + unat t" by (simp only: unat_add_lem)
  with pos have "unat (1::32 word) \<le> unat (e + t)" by simp
  then have "unat (e + t - 1) = unat (e + t) - unat (1::32 word)"
    by (simp add: unat_sub word_le_nat_alt)
  with et have "unat (e + t - 1) = unat e + unat t - 1" by simp
  moreover have "unat ((e + t - 1) div t) = unat (e + t - 1) div unat t" by (rule unat_div)
  ultimately show ?thesis by simp
qed

text \<open>The formula on natural numbers is the ceiling of the quotient.\<close>

lemma ceiling_quotient:
  fixes e t :: nat
  assumes "0 < t"
  shows "e \<le> ((e + t - 1) div t) * t \<and> ((e + t - 1) div t) * t < e + t"
proof -
  let ?n = "(e + t - 1) div t"
  have split: "e + t - 1 = ?n * t + (e + t - 1) mod t" by simp
  from assms have "(e + t - 1) mod t < t" by simp
  with split have "e + t - 1 < ?n * t + t" by linarith
  with assms have lower: "e \<le> ?n * t" by linarith
  from split have "?n * t \<le> e + t - 1" by linarith
  with assms have "?n * t < e + t" by linarith
  with lower show ?thesis by simp
qed

lemma mipExtent_bounds:
  fixes e t :: "32 word"
  assumes "e \<noteq> 0" "t \<noteq> 0" "unat e < 2 ^ 31" "unat t < 2 ^ 31"
  shows "mipExtent e t j \<noteq> 0 \<and> unat (mipExtent e t j) < 2 ^ 31"
proof (induction j)
  case 0
  with assms show ?case by simp
next
  case (Suc j)
  let ?x = "mipExtent e t j"
  have "unat (?x div 2) = unat ?x div 2" by (simp add: unat_div)
  moreover from Suc have "unat ?x < 2 ^ 31" by simp
  with div_le_dividend [of "unat ?x" 2] have "unat ?x div 2 < 2 ^ 31" by (rule le_less_trans)
  ultimately have half: "unat (?x div 2) < 2 ^ 31" by simp
  have "t \<le> max (?x div 2) t" by simp
  with assms(2) have "max (?x div 2) t \<noteq> 0" by (metis word_le_0_iff)
  moreover from half assms(4) have "unat (max (?x div 2) t) < 2 ^ 31" by (simp add: max_def)
  ultimately show ?case by simp
qed


lemma mipTiling_standard_pos:
  assumes "i < unat K"
    and "curWidth c \<noteq> 0" "curHeight c \<noteq> 0" "curDepth c \<noteq> 0"
    and "widthInTexels tile \<noteq> 0" "heightInTexels tile \<noteq> 0" "depthInTexels tile \<noteq> 0"
    and "unat (curWidth c) < 2 ^ 31" "unat (curHeight c) < 2 ^ 31" "unat (curDepth c) < 2 ^ 31"
    and "unat (widthInTexels tile) < 2 ^ 31" "unat (heightInTexels tile) < 2 ^ 31"
        "unat (depthInTexels tile) < 2 ^ 31"
  shows "0 < tilesInMip (mipTiling K tile i (cursorAt K tile c i))"
proof -
  have w: "widthInTiles (mipTiling K tile i (cursorAt K tile c i)) \<noteq> 0"
    using assms mipExtent_bounds [of "curWidth c" "widthInTexels tile" i]
    by (simp add: mipTiling_def cursorAt_extents ceil_tiles_pos)
  have h: "heightInTiles (mipTiling K tile i (cursorAt K tile c i)) \<noteq> 0"
    using assms mipExtent_bounds [of "curHeight c" "heightInTexels tile" i]
    by (simp add: mipTiling_def cursorAt_extents ceil_tiles_pos)
  have d: "depthInTiles (mipTiling K tile i (cursorAt K tile c i)) \<noteq> 0"
    using assms mipExtent_bounds [of "curDepth c" "depthInTexels tile" i]
    by (simp add: mipTiling_def cursorAt_extents ceil_tiles_pos)
  from w h d show ?thesis by (simp add: tilesInMip_def unat_gt_0)
qed

lemma cursorAt_start_unat:
  assumes "curStartTile c = 0"
    and "(\<Sum>l<m. tilesInMip (mipTiling K tile l (cursorAt K tile c l))) < 2 ^ 32"
  shows "j \<le> m \<Longrightarrow>
         unat (curStartTile (cursorAt K tile c j))
           = (\<Sum>l<j. tilesInMip (mipTiling K tile l (cursorAt K tile c l)))"
proof (induction j)
  case 0
  with assms(1) show ?case by simp
next
  case (Suc j)
  let ?P = "\<lambda>l. tilesInMip (mipTiling K tile l (cursorAt K tile c l))"
  let ?t = "mipTiling K tile j (cursorAt K tile c j)"
  from Suc.prems have "{..<Suc j} \<subseteq> {..<m}" by auto
  then have "(\<Sum>l<Suc j. ?P l) \<le> (\<Sum>l<m. ?P l)" by (intro sum_mono2) simp_all
  with assms(2) have bound: "(\<Sum>l<j. ?P l) + ?P j < 2 ^ 32" by simp
  then have "?P j < 2 ^ 32" by simp
  then have prod: "unat (widthInTiles ?t * heightInTiles ?t * depthInTiles ?t) = ?P j"
    by (simp add: tilesInMip_def unat_triple_product)
  from Suc have ih: "unat (curStartTile (cursorAt K tile c j)) = (\<Sum>l<j. ?P l)" by simp
  from bound ih prod
  have "unat (curStartTile (cursorAt K tile c j))
          + unat (widthInTiles ?t * heightInTiles ?t * depthInTiles ?t) < 2 ^ LENGTH(32)"
    by simp
  then have "unat (curStartTile (cursorAt K tile c j)
                   + widthInTiles ?t * heightInTiles ?t * depthInTiles ?t)
             = unat (curStartTile (cursorAt K tile c j))
               + unat (widthInTiles ?t * heightInTiles ?t * depthInTiles ?t)"
    by (simp only: unat_add_lem)
  with ih prod show ?case by (simp add: cursorAt_start_Suc del: cursorAt.simps)
qed

lemma getTextureTiling_loop:
  "getTextureTiling q texture numTiles wantDesc tileShape (Some requested) arr = Inr out \<Longrightarrow>
     out_subresourceTilingsNum out = Some (min requested (mipLevels (desc texture)))
     \<and> tilingLoop (numStandardMipsOf q) (tileShapeOf q) 0 (reportedCount requested texture)
          (firstCursor texture) arr = Inr (out_subresourceTilings out)"
  by (auto simp: getTextureTiling_def Let_def reportedCount_def split: if_splits sum.splits)

lemma reportedTilings_entries:
  assumes "getTextureTiling q texture numTiles wantDesc tileShape (Some requested) arr = Inr out"
  shows "length (reportedTilings out) = reportedCount requested texture
         \<and> (\<forall>i < reportedCount requested texture.
               reportedTilings out ! i
                 = mipTiling (numStandardMipsOf q) (tileShapeOf q) i
                     (cursorAt (numStandardMipsOf q) (tileShapeOf q) (firstCursor texture) i))"
proof -
  let ?M = "reportedCount requested texture"
  let ?K = "numStandardMipsOf q" and ?tile = "tileShapeOf q" and ?c = "firstCursor texture"
  from getTextureTiling_loop [OF assms]
  have num: "out_subresourceTilingsNum out = Some (min requested (mipLevels (desc texture)))"
    and loop: "tilingLoop ?K ?tile 0 ?M ?c arr = Inr (out_subresourceTilings out)"
    by simp_all
  show ?thesis
  proof (cases arr)
    case None
    with loop tilingLoop_None [of ?K ?tile 0 ?M ?c "out_subresourceTilings out"]
    have "?M = 0" "out_subresourceTilings out = None" by simp_all
    with num show ?thesis by (simp add: reportedTilings_def)
  next
    case (Some xs)
    with loop have "tilingLoop ?K ?tile 0 ?M (cursorAt ?K ?tile ?c 0) (Some xs)
                      = Inr (out_subresourceTilings out)" by simp
    from tilingLoop_result [OF this] obtain ys where
      ys: "out_subresourceTilings out = Some ys" "length ys = length xs"
      and entries: "\<forall>j. 0 \<le> j \<and> j < ?M \<longrightarrow>
                      j < length xs \<and> ys ! j = mipTiling ?K ?tile j (cursorAt ?K ?tile ?c j)"
      by blast
    have "?M \<le> length ys"
    proof (cases "?M")
      case 0
      then show ?thesis by simp
    next
      case (Suc m)
      with entries have "m < length xs" by simp
      with Suc ys(2) show ?thesis by simp
    qed
    with num ys entries show ?thesis
      by (simp add: reportedTilings_def reportedCount_def)
  qed
qed

lemma tilingLoop_divisors:
  "tilingLoop K tile i n cur arr = Inr r \<Longrightarrow> i < n \<Longrightarrow> i < unat K \<Longrightarrow>
     widthInTexels tile \<noteq> 0 \<and> heightInTexels tile \<noteq> 0 \<and> depthInTexels tile \<noteq> 0"
  by (subst (asm) tilingLoop.simps) (auto split: if_splits option.splits)

lemma getTextureTiling_total:
  assumes "reportedCount requested texture \<le> length xs"
    and "widthInTexels (tileShapeOf q) \<noteq> 0" "heightInTexels (tileShapeOf q) \<noteq> 0"
        "depthInTexels (tileShapeOf q) \<noteq> 0"
    and "wantDesc \<longrightarrow> imageSparseMemoryRequirements q \<noteq> []"
    and "wantDesc \<or> numTiles \<longrightarrow> tileByteSize texture \<noteq> 0"
  shows "\<exists>out. getTextureTiling q texture numTiles wantDesc tileShape (Some requested) (Some xs) = Inr out"
proof -
  from tilingLoop_total [OF assms(2-4) assms(1)]
  obtain r where "tilingLoop (numStandardMipsOf q) (tileShapeOf q) 0 (reportedCount requested texture)
                    (firstCursor texture) (Some xs) = Inr r"
    by blast
  with assms(5,6) show ?thesis
    by (auto simp: getTextureTiling_def Let_def reportedCount_def)
qed

lemmas tiling_defs = getTextureTiling_def exampleQueries_def exampleTexture_def noTiling_def
  numStandardMipsOf_def tileShapeOf_def firstCursor_def tilingLoop.simps mipTiling_def
  nextCursor_def Let_def UINT32_MAX_def

text \<open>
  Claim C4, as stated, fails where the tile count of a mip wraps around in 32 bits: a
  texture of 65536 by 65536 texels with two standard mips and tiles of one texel has
  4294967296 tiles in mip 0, so mip 1 is reported with the start index of mip 0.
\<close>

theorem start_index_wraps_counterexample:
  "numStandardMipsOf (exampleQueries 2 []) = 2
   \<and> getTextureTiling (exampleQueries 2 []) (exampleTexture 65536 65536 1 2) False False False (Some 2)
        (Some [noTiling, noTiling])
      = Inr \<lparr> out_numTiles = None, out_desc = None, out_tileShape = None,
              out_subresourceTilingsNum = Some 2,
              out_subresourceTilings = Some
                [ \<lparr> widthInTiles = 65536, heightInTiles = 65536, depthInTiles = 1,
                    startTileIndexInOverallResource = 0 \<rparr>,
                  \<lparr> widthInTiles = 32768, heightInTiles = 32768, depthInTiles = 1,
                    startTileIndexInOverallResource = 0 \<rparr> ] \<rparr>"
  by (simp add: tiling_defs)

text \<open>
  Claim C4, amended: when \<open>getTextureTiling\<close> returns with \<open>K\<close> standard mips and reports
  \<open>M\<close> mips, every mip \<open>i \<ge> K\<close> among them has three tile counts of zero and the start
  index \<open>UINT32_MAX\<close>; every mip \<open>i < K\<close> among them has, on each axis, the tile count
  (extent + tile extent - 1) / tile extent computed in 32-bit arithmetic from the
  halved-and-clamped extent, mip 0 starts at index 0 and each next standard mip at the
  index of the one before plus the product of its three tile counts (in 32-bit
  arithmetic). When the texture's extents are not zero and they and the tile extents are
  below 2147483648, each of these tile counts is the ceiling division of the extent by
  the tile extent; when moreover the reported standard mips hold fewer than 4294967296
  tiles in total, the start indices of the reported standard mips are strictly
  increasing. The call returns when the array holds \<open>M\<close> entries, the tile extents are not
  zero and the other requested outputs have what they divide by and index.
\<close>

theorem standard_mip_start_indices:
  "(getTextureTiling q texture numTiles wantDesc tileShape (Some requested) arr = Inr out \<longrightarrow>
      length (reportedTilings out) = reportedCount requested texture
      \<and> (\<forall>i < reportedCount requested texture. unat (numStandardMipsOf q) \<le> i \<longrightarrow>
            reportedTilings out ! i = unmappedTiling)
      \<and> (\<forall>i < reportedCount requested texture. i < unat (numStandardMipsOf q) \<longrightarrow>
            widthInTiles (reportedTilings out ! i)
              = (mipExtent (width (desc texture)) (widthInTexels (tileShapeOf q)) i
                 + widthInTexels (tileShapeOf q) - 1) div widthInTexels (tileShapeOf q)
            \<and> heightInTiles (reportedTilings out ! i)
              = (mipExtent (height (desc texture)) (heightInTexels (tileShapeOf q)) i
                 + heightInTexels (tileShapeOf q) - 1) div heightInTexels (tileShapeOf q)
            \<and> depthInTiles (reportedTilings out ! i)
              = (mipExtent (depth (desc texture)) (depthInTexels (tileShapeOf q)) i
                 + depthInTexels (tileShapeOf q) - 1) div depthInTexels (tileShapeOf q))
      \<and> (0 < reportedCount requested texture \<and> 0 < unat (numStandardMipsOf q) \<longrightarrow>
            startTileIndexInOverallResource (reportedTilings out ! 0) = 0)
      \<and> (\<forall>i. Suc i < reportedCount requested texture \<and> Suc i < unat (numStandardMipsOf q) \<longrightarrow>
            startTileIndexInOverallResource (reportedTilings out ! Suc i)
              = startTileIndexInOverallResource (reportedTilings out ! i)
                + widthInTiles (reportedTilings out ! i) * heightInTiles (reportedTilings out ! i)
                  * depthInTiles (reportedTilings out ! i))
      \<and> (extentsInRange texture (tileShapeOf q) \<longrightarrow>
            (\<forall>i < reportedCount requested texture. i < unat (numStandardMipsOf q) \<longrightarrow>
               unat (widthInTiles (reportedTilings out ! i))
                 = (unat (mipExtent (width (desc texture)) (widthInTexels (tileShapeOf q)) i)
                    + unat (widthInTexels (tileShapeOf q)) - 1) div unat (widthInTexels (tileShapeOf q))
               \<and> unat (heightInTiles (reportedTilings out ! i))
                 = (unat (mipExtent (height (desc texture)) (heightInTexels (tileShapeOf q)) i)
                    + unat (heightInTexels (tileShapeOf q)) - 1) div unat (heightInTexels (tileShapeOf q))
               \<and> unat (depthInTiles (reportedTilings out ! i))
                 = (unat (mipExtent (depth (desc texture)) (depthInTexels (tileShapeOf q)) i)
                    + unat (depthInTexels (tileShapeOf q)) - 1) div unat (depthInTexels (tileShapeOf q))))
      \<and> (extentsInRange texture (tileShapeOf q)
          \<and> (\<Sum>l < min (reportedCount requested texture) (unat (numStandardMipsOf q)).
                tilesInMip (reportedTilings out ! l)) < 2 ^ 32
          \<longrightarrow> (\<forall>i. Suc i < reportedCount requested texture \<and> Suc i < unat (numStandardMipsOf q) \<longrightarrow>
                 startTileIndexInOverallResource (reportedTilings out ! i)
                   < startTileIndexInOverallResource (reportedTilings out ! Suc i))))
   \<and> (arr = Some xs \<and> reportedCount requested texture \<le> length xs
       \<and> widthInTexels (tileShapeOf q) \<noteq> 0 \<and> heightInTexels (tileShapeOf q) \<noteq> 0
       \<and> depthInTexels (tileShapeOf q) \<noteq> 0
       \<and> (wantDesc \<longrightarrow> imageSparseMemoryRequirements q \<noteq> [])
       \<and> (wantDesc \<or> numTiles \<longrightarrow> tileByteSize texture \<noteq> 0)
      \<longrightarrow> (\<exists>out. getTextureTiling q texture numTiles wantDesc tileShape (Some requested) arr = Inr out))"
proof (intro conjI impI)
  let ?M = "reportedCount requested texture"
  let ?K = "numStandardMipsOf q" and ?tile = "tileShapeOf q" and ?c = "firstCursor texture"
  let ?cur = "cursorAt ?K ?tile ?c"
  let ?r = "reportedTilings out"
  assume ret: "getTextureTiling q texture numTiles wantDesc tileShape (Some requested) arr = Inr out"
  note rep = reportedTilings_entries [OF ret]
  from rep have entry: "\<And>i. i < ?M \<Longrightarrow> ?r ! i = mipTiling ?K ?tile i (?cur i)" by simp
  from rep show "length ?r = ?M" by simp
  show "\<forall>i < ?M. unat ?K \<le> i \<longrightarrow> ?r ! i = unmappedTiling"
    by (simp add: entry mipTiling_def unmappedTiling_def)
  show "\<forall>i < ?M. i < unat ?K \<longrightarrow>
            widthInTiles (?r ! i)
              = (mipExtent (width (desc texture)) (widthInTexels ?tile) i
                 + widthInTexels ?tile - 1) div widthInTexels ?tile
            \<and> heightInTiles (?r ! i)
              = (mipExtent (height (desc texture)) (heightInTexels ?tile) i
                 + heightInTexels ?tile - 1) div heightInTexels ?tile
            \<and> depthInTiles (?r ! i)
              = (mipExtent (depth (desc texture)) (depthInTexels ?tile) i
                 + depthInTexels ?tile - 1) div depthInTexels ?tile"
    by (simp add: entry mipTiling_def cursorAt_extents firstCursor_def)
  show "startTileIndexInOverallResource (?r ! 0) = 0" if "0 < ?M \<and> 0 < unat ?K"
    using that by (simp add: entry mipTiling_def firstCursor_def)
  have step: "startTileIndexInOverallResource (?r ! Suc i)
              = startTileIndexInOverallResource (?r ! i)
                + widthInTiles (?r ! i) * heightInTiles (?r ! i) * depthInTiles (?r ! i)"
    if "Suc i < ?M \<and> Suc i < unat ?K" for i
  proof -
    from that have i: "i < ?M" "i < unat ?K" by simp_all
    from that have "startTileIndexInOverallResource (?r ! Suc i) = curStartTile (?cur (Suc i))"
      by (simp add: entry mipTiling_def del: cursorAt.simps)
    moreover from i have "startTileIndexInOverallResource (?r ! i) = curStartTile (?cur i)"
      by (simp add: entry mipTiling_def)
    ultimately show ?thesis using i by (simp add: cursorAt_start_Suc entry del: cursorAt.simps)
  qed
  then show "\<forall>i. Suc i < ?M \<and> Suc i < unat ?K \<longrightarrow>
            startTileIndexInOverallResource (?r ! Suc i)
              = startTileIndexInOverallResource (?r ! i)
                + widthInTiles (?r ! i) * heightInTiles (?r ! i) * depthInTiles (?r ! i)"
    by blast
  show "\<forall>i < ?M. i < unat ?K \<longrightarrow>
               unat (widthInTiles (?r ! i))
                 = (unat (mipExtent (width (desc texture)) (widthInTexels ?tile) i)
                    + unat (widthInTexels ?tile) - 1) div unat (widthInTexels ?tile)
               \<and> unat (heightInTiles (?r ! i))
                 = (unat (mipExtent (height (desc texture)) (heightInTexels ?tile) i)
                    + unat (heightInTexels ?tile) - 1) div unat (heightInTexels ?tile)
               \<and> unat (depthInTiles (?r ! i))
                 = (unat (mipExtent (depth (desc texture)) (depthInTexels ?tile) i)
                    + unat (depthInTexels ?tile) - 1) div unat (depthInTexels ?tile)"
    if inr: "extentsInRange texture ?tile"
  proof (intro allI impI)
    fix i assume i: "i < ?M" "i < unat ?K"
    from getTextureTiling_loop [OF ret]
    have "tilingLoop ?K ?tile 0 ?M ?c arr = Inr (out_subresourceTilings out)" by simp
    from tilingLoop_divisors [OF this] i
    have nz: "widthInTexels ?tile \<noteq> 0" "heightInTexels ?tile \<noteq> 0" "depthInTexels ?tile \<noteq> 0"
      by simp_all
    from inr have tb: "unat (widthInTexels ?tile) < 2 ^ 31" "unat (heightInTexels ?tile) < 2 ^ 31"
        "unat (depthInTexels ?tile) < 2 ^ 31"
      by (simp_all add: extentsInRange_def)
    from inr nz mipExtent_bounds [of "width (desc texture)" "widthInTexels ?tile" i]
    have w: "unat (mipExtent (width (desc texture)) (widthInTexels ?tile) i) < 2 ^ 31"
      by (simp add: extentsInRange_def)
    from inr nz mipExtent_bounds [of "height (desc texture)" "heightInTexels ?tile" i]
    have h: "unat (mipExtent (height (desc texture)) (heightInTexels ?tile) i) < 2 ^ 31"
      by (simp add: extentsInRange_def)
    from inr nz mipExtent_bounds [of "depth (desc texture)" "depthInTexels ?tile" i]
    have d: "unat (mipExtent (depth (desc texture)) (depthInTexels ?tile) i) < 2 ^ 31"
      by (simp add: extentsInRange_def)
    from i show "unat (widthInTiles (?r ! i))
                 = (unat (mipExtent (width (desc texture)) (widthInTexels ?tile) i)
                    + unat (widthInTexels ?tile) - 1) div unat (widthInTexels ?tile)
               \<and> unat (heightInTiles (?r ! i))
                 = (unat (mipExtent (height (desc texture)) (heightInTexels ?tile) i)
                    + unat (heightInTexels ?tile) - 1) div unat (heightInTexels ?tile)
               \<and> unat (depthInTiles (?r ! i))
                 = (unat (mipExtent (depth (desc texture)) (depthInTexels ?tile) i)
                    + unat (depthInTexels ?tile) - 1) div unat (depthInTexels ?tile)"
      by (simp add: entry mipTiling_def cursorAt_extents firstCursor_def
            ceil_div_unat [OF nz(1) w tb(1)] ceil_div_unat [OF nz(2) h tb(2)]
            ceil_div_unat [OF nz(3) d tb(3)])
  qed
  show "\<forall>i. Suc i < ?M \<and> Suc i < unat ?K \<longrightarrow>
          startTileIndexInOverallResource (?r ! i) < startTileIndexInOverallResource (?r ! Suc i)"
    if range: "extentsInRange texture ?tile
               \<and> (\<Sum>l < min ?M (unat ?K). tilesInMip (?r ! l)) < 2 ^ 32"
  proof (intro allI impI)
    fix i assume si: "Suc i < ?M \<and> Suc i < unat ?K"
    then have i: "i < ?M" "i < unat ?K" "0 < ?M" "0 < unat ?K" by simp_all
    let ?m = "min ?M (unat ?K)"
    from getTextureTiling_loop [OF ret]
    have "tilingLoop ?K ?tile 0 ?M ?c arr = Inr (out_subresourceTilings out)" by simp
    from tilingLoop_divisors [OF this i(3,4)]
    have nz: "widthInTexels ?tile \<noteq> 0" "heightInTexels ?tile \<noteq> 0" "depthInTexels ?tile \<noteq> 0"
      by simp_all
    have "(\<Sum>l < ?m. tilesInMip (mipTiling ?K ?tile l (?cur l))) = (\<Sum>l < ?m. tilesInMip (?r ! l))"
      by (rule sum.cong) (simp_all add: entry)
    with range have total: "(\<Sum>l < ?m. tilesInMip (mipTiling ?K ?tile l (?cur l))) < 2 ^ 32" by simp
    have c0: "curStartTile ?c = 0" by (simp add: firstCursor_def)
    from si have le: "i \<le> ?m" "Suc i \<le> ?m" by simp_all
    note un = cursorAt_start_unat [OF c0 total]
    from range nz i(2)
    have "0 < tilesInMip (mipTiling ?K ?tile i (?cur i))"
      by (intro mipTiling_standard_pos) (simp_all add: extentsInRange_def firstCursor_def)
    with un [OF le(1)] un [OF le(2)]
    have "unat (curStartTile (?cur i)) < unat (curStartTile (?cur (Suc i)))"
      by (simp del: cursorAt.simps)
    then have "curStartTile (?cur i) < curStartTile (?cur (Suc i))"
      by (simp only: word_less_nat_alt)
    moreover from si have "startTileIndexInOverallResource (?r ! Suc i) = curStartTile (?cur (Suc i))"
      by (simp add: entry mipTiling_def del: cursorAt.simps)
    moreover from i have "startTileIndexInOverallResource (?r ! i) = curStartTile (?cur i)"
      by (simp add: entry mipTiling_def)
    ultimately show "startTileIndexInOverallResource (?r ! i)
                       < startTileIndexInOverallResource (?r ! Suc i)"
      by simp
  qed
next
  assume "arr = Some xs \<and> reportedCount requested texture \<le> length xs
       \<and> widthInTexels (tileShapeOf q) \<noteq> 0 \<and> heightInTexels (tileShapeOf q) \<noteq> 0
       \<and> depthInTexels (tileShapeOf q) \<noteq> 0
       \<and> (wantDesc \<longrightarrow> imageSparseMemoryRequirements q \<noteq> [])
       \<and> (wantDesc \<or> numTiles \<longrightarrow> tileByteSize texture \<noteq> 0)"
  then show "\<exists>out. getTextureTiling q texture numTiles wantDesc tileShape (Some requested) arr = Inr out"
    using getTextureTiling_total [of requested texture xs q wantDesc numTiles tileShape] by simp
qed

lemma example_run:
  "getTextureTiling (exampleQueries 3 [exampleGranularity]) (exampleTexture 1024 512 1 4)
        False False False (Some 8) (Some exampleArray) = Inr exampleOutputs"
  by (simp add: tiling_defs exampleGranularity_def exampleOutputs_def exampleTilings_def
        unmappedTiling_def exampleArray_def)

text \<open>
  The amended claim C4 at a texture of 1024 by 512 texels with four mips, three of them
  standard, and tiles of 128 by 128 texels.
\<close>

theorem standard_mip_start_indices_witness:
  "getTextureTiling (exampleQueries 3 [exampleGranularity]) (exampleTexture 1024 512 1 4)
        False False False (Some 8) (Some exampleArray) = Inr exampleOutputs
   \<and> reportedCount 8 (exampleTexture 1024 512 1 4) = 4
   \<and> unat (numStandardMipsOf (exampleQueries 3 [exampleGranularity])) = 3
   \<and> extentsInRange (exampleTexture 1024 512 1 4) (tileShapeOf (exampleQueries 3 [exampleGranularity]))
   \<and> reportedTilings exampleOutputs = exampleTilings
   \<and> (\<Sum>l < 3. tilesInMip (exampleTilings ! l)) = 42
   \<and> startTileIndexInOverallResource (exampleTilings ! 0) < startTileIndexInOverallResource (exampleTilings ! 1)
   \<and> startTileIndexInOverallResource (exampleTilings ! 1) < startTileIndexInOverallResource (exampleTilings ! 2)"
proof -
  let ?q = "exampleQueries 3 [exampleGranularity]" and ?t = "exampleTexture 1024 512 1 4"
  have M: "reportedCount 8 ?t = 4"
    by (simp add: reportedCount_def exampleTexture_def)
  have K: "unat (numStandardMipsOf ?q) = 3"
    by (simp add: numStandardMipsOf_def exampleQueries_def)
  have range: "extentsInRange ?t (tileShapeOf ?q)"
    by (simp add: extentsInRange_def tileShapeOf_def exampleQueries_def exampleTexture_def
          exampleGranularity_def)
  have rep: "reportedTilings exampleOutputs = exampleTilings"
    by (simp add: reportedTilings_def exampleOutputs_def exampleTilings_def)
  have "{..<3::nat} = {0, 1, 2}" by auto
  then have total: "(\<Sum>l < 3. tilesInMip (exampleTilings ! l)) = 42"
    by (simp add: exampleTilings_def tilesInMip_def)
  from total M K rep
  have bound: "(\<Sum>l < min (reportedCount 8 ?t) (unat (numStandardMipsOf ?q)).
                  tilesInMip (reportedTilings exampleOutputs ! l)) < 2 ^ 32"
    by simp
  note inst = standard_mip_start_indices [of ?q ?t False False False 8 "Some exampleArray" exampleOutputs exampleArray]
  note inc = inst [THEN conjunct1, THEN mp, OF example_run, THEN conjunct2, THEN conjunct2,
                   THEN conjunct2, THEN conjunct2, THEN conjunct2, THEN conjunct2, THEN mp,
                   OF conjI [OF range bound]]
  from inc [rule_format, of 0] inc [rule_format, of 1] M K rep
  have "startTileIndexInOverallResource (exampleTilings ! 0) < startTileIndexInOverallResource (exampleTilings ! 1)"
       "startTileIndexInOverallResource (exampleTilings ! 1) < startTileIndexInOverallResource (exampleTilings ! 2)"
    by (simp_all add: numeral_2_eq_2)
  with example_run M K range rep total show ?thesis by blast
qed

end
